theory Spec2Isabelle
  imports Complex_Main
begin

section \<open>Common outcome types\<close>

text \<open>
  Python exceptions are values of \<open>error\<close>; a function that may raise returns
  \<open>error + 'a\<close> with \<open>Inl\<close> for the exception. Calls to \<open>warnings.warn\<close> and to
  the external collaborators (array validation, fold generation, numeric kernels)
  are recorded, in program order, as a list of \<open>event\<close>s.
\<close>

datatype error = ValueError | TypeError | IndexError | KeyError | LinAlgError | UnboundLocalError
  | AttributeError | AssertionError

datatype event = Warn string | Call string | Print string

section \<open>learning\_curve.py: \_translate\_train\_sizes\<close>

text \<open>
  \<open>train_sizes\<close> is converted with \<open>np.asarray\<close>; the dtype of the array decides
  the branch, so the argument is either an array of floats (modelled as reals, the
  products \<open>x * n_max_training_samples\<close> being taken exactly) or an array of
  integers.
\<close>

datatype train_sizes = FloatSizes "real list" | IntSizes "int list"

fun n_ticks_of :: "train_sizes \<Rightarrow> nat" where
  "n_ticks_of (FloatSizes fs) = length fs"
| "n_ticks_of (IntSizes ns) = length ns"

text \<open>\<open>np.min\<close> and \<open>np.max\<close> raise ValueError on an array of size zero.\<close>

fun np_min :: "'a::linorder list \<Rightarrow> error + 'a" where
  "np_min [] = Inl ValueError"
| "np_min (x # xs) = Inr (fold min xs x)"

fun np_max :: "'a::linorder list \<Rightarrow> error + 'a" where
  "np_max [] = Inl ValueError"
| "np_max (x # xs) = Inr (fold max xs x)"

text \<open>\<open>astype(np.int)\<close> truncates towards zero.\<close>

definition astype_int :: "real \<Rightarrow> int" where
  "astype_int x = (if 0 \<le> x then \<lfloor>x\<rfloor> else \<lceil>x\<rceil>)"

text \<open>\<open>np.clip(a, lo, hi)\<close> is \<open>minimum(maximum(a, lo), hi)\<close>.\<close>

definition np_clip :: "int \<Rightarrow> int \<Rightarrow> int \<Rightarrow> int" where
  "np_clip a lo hi = min (max a lo) hi"

text \<open>\<open>np.unique\<close> returns the sorted distinct elements.\<close>

definition np_unique :: "int list \<Rightarrow> int list" where
  "np_unique xs = sort (remdups xs)"

definition dup_warning :: string where
  "dup_warning = ''Removed duplicate entries from train_sizes''"

text \<open>
  The sizes after translation and validation, before \<open>np.unique\<close> (lines 172--195).
\<close>

fun translated_sizes :: "train_sizes \<Rightarrow> int \<Rightarrow> error + int list" where
  "translated_sizes (FloatSizes fs) n_max_training_samples =
     (case np_min fs of Inl e \<Rightarrow> Inl e | Inr n_min_required_samples \<Rightarrow>
      case np_max fs of Inl e \<Rightarrow> Inl e | Inr n_max_required_samples \<Rightarrow>
        if n_min_required_samples \<le> 0 \<or> n_max_required_samples > 1 then Inl ValueError
        else Inr (map (\<lambda>x. np_clip (astype_int (x * of_int n_max_training_samples))
                                   1 n_max_training_samples) fs))"
| "translated_sizes (IntSizes ns) n_max_training_samples =
     (case np_min ns of Inl e \<Rightarrow> Inl e | Inr n_min_required_samples \<Rightarrow>
      case np_max ns of Inl e \<Rightarrow> Inl e | Inr n_max_required_samples \<Rightarrow>
        if n_min_required_samples \<le> 0 \<or> n_max_required_samples > n_max_training_samples
        then Inl ValueError
        else Inr ns)"

text \<open>
  \<open>_translate_train_sizes\<close>: the result is the array of unique sizes together with
  the warnings emitted.
\<close>

definition translate_train_sizes ::
  "train_sizes \<Rightarrow> int \<Rightarrow> error + (int list \<times> event list)" where
  "translate_train_sizes train_sizes n_max_training_samples =
     (let n_ticks = n_ticks_of train_sizes in
      case translated_sizes train_sizes n_max_training_samples of
        Inl e \<Rightarrow> Inl e
      | Inr sizes \<Rightarrow>
          (let train_sizes_abs = np_unique sizes in
           Inr (train_sizes_abs,
                if n_ticks > length train_sizes_abs then [Warn dup_warning] else [])))"

section \<open>Sequencing of effects\<close>

text \<open>
  A run is the outcome of a computation together with the events it emitted. The
  first exception ends the run; the events emitted up to that point are kept.
\<close>

type_synonym 'a run = "(error + 'a) \<times> event list"

definition ret :: "'a \<Rightarrow> 'a run" where
  "ret a = (Inr a, [])"

definition raise :: "error \<Rightarrow> 'a run" where
  "raise e = (Inl e, [])"

definition warn :: "string \<Rightarrow> unit run" where
  "warn msg = (Inr (), [Warn msg])"

definition call :: "string \<Rightarrow> error + 'a \<Rightarrow> 'a run" where
  "call name r = (r, [Call name])"

definition lift :: "error + 'a \<Rightarrow> 'a run" where
  "lift r = (r, [])"

definition bind_run :: "'a run \<Rightarrow> ('a \<Rightarrow> 'b run) \<Rightarrow> 'b run" where
  "bind_run m f =
     (case m of
        (Inl e, tr) \<Rightarrow> (Inl e, tr)
      | (Inr a, tr) \<Rightarrow> (case f a of (r, tr') \<Rightarrow> (r, tr @ tr')))"

text \<open>A \<open>for\<close> loop whose body may raise: the results are collected in order.\<close>

fun for_each :: "('a \<Rightarrow> 'b run) \<Rightarrow> 'a list \<Rightarrow> 'b list run" where
  "for_each f [] = ret []"
| "for_each f (x # xs) =
     bind_run (f x) (\<lambda>b. bind_run (for_each f xs) (\<lambda>bs. ret (b # bs)))"

section \<open>learning\_curve.py: learning\_curve\<close>

text \<open>
  The estimator, the data \<open>(X, y)\<close>, the \<open>cv\<close> argument and the \<open>scoring\<close>
  argument are opaque to \<open>learning_curve\<close>: they are type parameters. The functions
  imported from other modules (\<open>check_arrays\<close>, \<open>_check_cv\<close>, \<open>is_classifier\<close>,
  \<open>clone\<close>, \<open>_check_scorable\<close>, \<open>get_scorer\<close>, \<open>_split\<close>, \<open>_fit\<close>, \<open>_score\<close>)
  are fields of an environment; each may raise. \<open>has_partial_fit\<close> is
  \<open>hasattr(estimator, "partial_fit")\<close>. Printing under \<open>verbose\<close> is left out.
\<close>

datatype cv_folds =
    MaskFolds "(bool list \<times> bool list) list"
  | IndexFolds "(nat list \<times> nat list) list"

record ('e, 'd, 'c, 's, 'k, 'l) lc_env =
  has_partial_fit :: "'e \<Rightarrow> bool"
  is_classifier :: "'e \<Rightarrow> bool"
  check_arrays :: "'d \<Rightarrow> error + 'd"
  check_cv :: "'c \<Rightarrow> 'd \<Rightarrow> bool \<Rightarrow> error + cv_folds"
  check_scorable :: "'e \<Rightarrow> 's \<Rightarrow> error + unit"
  get_scorer :: "'s \<Rightarrow> error + 'k"
  unique_labels :: "'d \<Rightarrow> 'l"
  clone :: "'e \<Rightarrow> 'e"
  split_data :: "'e \<Rightarrow> 'd \<Rightarrow> nat list \<Rightarrow> nat list option \<Rightarrow> error + 'd"
  fit_call :: "'e \<Rightarrow> 'd \<Rightarrow> error + 'e"
  partial_fit_call :: "'e \<Rightarrow> 'd \<Rightarrow> 'l option \<Rightarrow> error + 'e"
  score_call :: "'e \<Rightarrow> 'd \<Rightarrow> 'k \<Rightarrow> error + real"

text \<open>\<open>np.nonzero(mask)[0]\<close>: the positions that hold \<open>True\<close>.\<close>

definition np_nonzero :: "bool list \<Rightarrow> nat list" where
  "np_nonzero m = filter (\<lambda>i. m ! i) [0..<length m]"

text \<open>
  The boolean-mask hack of lines 105--110: when the folds are boolean masks, every
  fold is converted with \<open>np.nonzero\<close>; \<open>cv[0]\<close> raises IndexError when there is
  no fold.
\<close>

fun unmask_cv :: "cv_folds \<Rightarrow> error + (nat list \<times> nat list) list" where
  "unmask_cv (MaskFolds []) = Inl IndexError"
| "unmask_cv (IndexFolds []) = Inl IndexError"
| "unmask_cv (MaskFolds cv) = Inr (map (\<lambda>(tr, te). (np_nonzero tr, np_nonzero te)) cv)"
| "unmask_cv (IndexFolds cv) = Inr cv"

text \<open>Python's \<open>xs[:n]\<close>, with a negative \<open>n\<close> counting from the end.\<close>

definition py_prefix :: "'a list \<Rightarrow> int \<Rightarrow> 'a list" where
  "py_prefix xs n = (if 0 \<le> n then take (nat n) xs else take (length xs - nat (- n)) xs)"

text \<open>
  \<open>np.split(train, train_sizes)[:-1]\<close>: the sections \<open>train[s\<^sub>i\<^sub>-\<^sub>1 : s\<^sub>i]\<close> between
  consecutive division points, the section after the last point being dropped.
\<close>

fun np_split_init :: "'a list \<Rightarrow> int \<Rightarrow> int list \<Rightarrow> 'a list list" where
  "np_split_init xs prev [] = []"
| "np_split_init xs prev (s # ss) =
     drop (nat prev) (py_prefix xs s) # np_split_init xs s ss"

definition fit_estimator ::
  "('e, 'd, 'c, 's, 'k, 'l) lc_env \<Rightarrow> 'e \<Rightarrow> 'd \<Rightarrow> nat list \<Rightarrow> nat list \<Rightarrow> int \<Rightarrow> 'k
     \<Rightarrow> error + real \<times> real" where
  "fit_estimator env base_estimator data train test n_train_samples scorer =
     (let train_subset = py_prefix train n_train_samples;
          estimator = clone env base_estimator in
      case split_data env estimator data train_subset None of Inl e \<Rightarrow> Inl e | Inr d_train \<Rightarrow>
      case split_data env estimator data test (Some train_subset) of Inl e \<Rightarrow> Inl e | Inr d_test \<Rightarrow>
      case fit_call env estimator d_train of Inl e \<Rightarrow> Inl e | Inr fitted \<Rightarrow>
      case score_call env fitted d_train scorer of Inl e \<Rightarrow> Inl e | Inr train_score \<Rightarrow>
      case score_call env fitted d_test scorer of Inl e \<Rightarrow> Inl e | Inr test_score \<Rightarrow>
        Inr (train_score, test_score))"

fun incremental_loop ::
  "('e, 'd, 'c, 's, 'k, 'l) lc_env \<Rightarrow> 'e \<Rightarrow> 'd \<Rightarrow> 'l option \<Rightarrow> nat list \<Rightarrow> nat list \<Rightarrow> 'k
     \<Rightarrow> (int \<times> nat list) list \<Rightarrow> error + (real \<times> real) list" where
  "incremental_loop env estimator data classes train test scorer [] = Inr []"
| "incremental_loop env estimator data classes train test scorer
     ((n_train_samples, partial_train) # partitions) =
     (case split_data env estimator data (py_prefix train n_train_samples) None of
        Inl e \<Rightarrow> Inl e | Inr d_train \<Rightarrow>
      case split_data env estimator data partial_train None of
        Inl e \<Rightarrow> Inl e | Inr d_partial \<Rightarrow>
      case split_data env estimator data test (Some (py_prefix train n_train_samples)) of
        Inl e \<Rightarrow> Inl e | Inr d_test \<Rightarrow>
      case partial_fit_call env estimator d_partial classes of
        Inl e \<Rightarrow> Inl e | Inr fitted \<Rightarrow>
      case score_call env fitted d_train scorer of Inl e \<Rightarrow> Inl e | Inr train_score \<Rightarrow>
      case score_call env fitted d_test scorer of Inl e \<Rightarrow> Inl e | Inr test_score \<Rightarrow>
      case incremental_loop env fitted data classes train test scorer partitions of
        Inl e \<Rightarrow> Inl e | Inr scores \<Rightarrow> Inr ((train_score, test_score) # scores))"

definition incremental_fit_estimator ::
  "('e, 'd, 'c, 's, 'k, 'l) lc_env \<Rightarrow> 'e \<Rightarrow> 'd \<Rightarrow> 'l option \<Rightarrow> nat list \<Rightarrow> nat list
     \<Rightarrow> int list \<Rightarrow> 'k \<Rightarrow> error + (real \<times> real) list" where
  "incremental_fit_estimator env base_estimator data classes train test train_sizes scorer =
     incremental_loop env (clone env base_estimator) data classes train test scorer
       (zip train_sizes (np_split_init train 0 train_sizes))"

definition mean :: "real list \<Rightarrow> real" where
  "mean xs = sum_list xs / real (length xs)"

text \<open>
  \<open>out.mean(axis=0)\<close> for \<open>out\<close> of shape \<open>(n_cv_folds, n_unique_ticks, 2)\<close>: for
  every tick, the mean over the folds of the training and of the test score.
\<close>

definition avg_over_cv :: "(real \<times> real) list list \<Rightarrow> nat \<Rightarrow> (real \<times> real) list" where
  "avg_over_cv out n_unique_ticks =
     map (\<lambda>j. (mean (map (\<lambda>fold. fst (fold ! j)) out),
                 mean (map (\<lambda>fold. snd (fold ! j)) out)))
         [0..<n_unique_ticks]"

text \<open>
  The non-incremental tasks are generated fold by fold, tick by tick, and the flat
  list of results is reshaped to \<open>(n_cv_folds, n_unique_ticks, 2)\<close>.
\<close>

fun reshape_rows :: "nat \<Rightarrow> nat \<Rightarrow> 'a list \<Rightarrow> 'a list list" where
  "reshape_rows 0 w xs = []"
| "reshape_rows (Suc h) w xs = take w xs # reshape_rows h w (drop w xs)"

definition learning_curve ::
  "('e, 'd, 'c, 's, 'k, 'l) lc_env \<Rightarrow> 'e \<Rightarrow> 'd \<Rightarrow> train_sizes \<Rightarrow> 'c \<Rightarrow> 's \<Rightarrow> bool
     \<Rightarrow> (int list \<times> real list \<times> real list) run" where
  "learning_curve env estimator data train_sizes cv scoring exploit_incremental_learning =
     (if exploit_incremental_learning \<and> \<not> has_partial_fit env estimator
      then raise ValueError
      else
        bind_run (call ''check_arrays'' (check_arrays env data)) (\<lambda>data.
        bind_run (call ''_check_cv''
                    (check_cv env cv data (is_classifier env estimator))) (\<lambda>cv_list.
        bind_run (lift (unmask_cv cv_list)) (\<lambda>cv.
        let n_max_training_samples = int (length (fst (hd cv))) in
        bind_run (case translate_train_sizes train_sizes n_max_training_samples of
                    Inl e \<Rightarrow> (Inl e, [])
                  | Inr (sizes, ws) \<Rightarrow> (Inr sizes, ws)) (\<lambda>train_sizes_abs.
        let n_unique_ticks = length train_sizes_abs in
        bind_run (call ''_check_scorable'' (check_scorable env estimator scoring)) (\<lambda>_.
        bind_run (call ''get_scorer'' (get_scorer env scoring)) (\<lambda>scorer.
        bind_run
          (if exploit_incremental_learning
           then
             (let classes = (if is_classifier env estimator
                             then Some (unique_labels env data) else None) in
              for_each (\<lambda>(train, test).
                  call ''_incremental_fit_estimator''
                    (incremental_fit_estimator env estimator data classes train test
                       train_sizes_abs scorer)) cv)
           else
             bind_run
               (for_each (\<lambda>((train, test), n_train_samples).
                   call ''_fit_estimator''
                     (fit_estimator env estimator data train test n_train_samples scorer))
                  (concat (map (\<lambda>fold. map (\<lambda>n. (fold, n)) train_sizes_abs) cv)))
               (\<lambda>out. ret (reshape_rows (length out div n_unique_ticks) n_unique_ticks out)))
          (\<lambda>out.
             let avg = avg_over_cv out n_unique_ticks in
             ret (train_sizes_abs, map fst avg, map snd avg)))))))))"

text \<open>
  A small environment for concrete runs: the estimator is a flag telling whether it
  exposes \<open>partial_fit\<close>, the data is the number of samples, \<open>cv\<close> is a fixed
  list of folds, every fit succeeds and every score is 1.
\<close>

definition demo_env :: "(bool, nat, (nat list \<times> nat list) list, unit, unit, unit) lc_env" where
  "demo_env =
     \<lparr> has_partial_fit = (\<lambda>e. e),
       is_classifier = (\<lambda>e. False),
       check_arrays = (\<lambda>d. Inr d),
       check_cv = (\<lambda>c d b. Inr (IndexFolds c)),
       check_scorable = (\<lambda>e s. Inr ()),
       get_scorer = (\<lambda>s. Inr ()),
       unique_labels = (\<lambda>d. ()),
       clone = (\<lambda>e. e),
       split_data = (\<lambda>e d idx sub. Inr (length idx)),
       fit_call = (\<lambda>e d. Inr e),
       partial_fit_call = (\<lambda>e d c. if e then Inr e else Inl TypeError),
       score_call = (\<lambda>e d k. Inr 1) \<rparr>"

section \<open>Arrays\<close>

text \<open>
  A numpy array is its shape together with its entries in row-major order. Entries
  are reals: rounding, infinities and NaN are outside the model.
\<close>

record ndarray =
  shape :: "nat list"
  elems :: "real list"

definition ndim :: "ndarray \<Rightarrow> nat" where
  "ndim a = length (shape a)"

text \<open>\<open>n, m = a.shape\<close> raises ValueError unless the shape has two entries.\<close>

definition unpack2 :: "nat list \<Rightarrow> error + nat \<times> nat" where
  "unpack2 s = (case s of [n, m] \<Rightarrow> Inr (n, m) | _ \<Rightarrow> Inl ValueError)"

definition py_nth :: "'a list \<Rightarrow> nat \<Rightarrow> error + 'a" where
  "py_nth xs i = (if i < length xs then Inr (xs ! i) else Inl IndexError)"

definition mk1 :: "nat \<Rightarrow> (nat \<Rightarrow> real) \<Rightarrow> ndarray" where
  "mk1 n f = \<lparr> shape = [n], elems = map f [0..<n] \<rparr>"

definition mk2 :: "nat \<Rightarrow> nat \<Rightarrow> (nat \<Rightarrow> nat \<Rightarrow> real) \<Rightarrow> ndarray" where
  "mk2 n m f = \<lparr> shape = [n, m], elems = concat (map (\<lambda>i. map (f i) [0..<m]) [0..<n]) \<rparr>"

definition nrows :: "ndarray \<Rightarrow> nat" where
  "nrows a = (case shape a of n # _ \<Rightarrow> n | [] \<Rightarrow> 0)"

definition ncols :: "ndarray \<Rightarrow> nat" where
  "ncols a = (case shape a of _ # m # _ \<Rightarrow> m | _ \<Rightarrow> 0)"

definition at1 :: "ndarray \<Rightarrow> nat \<Rightarrow> real" where
  "at1 a i = (if i < length (elems a) then elems a ! i else 0)"

definition at2 :: "ndarray \<Rightarrow> nat \<Rightarrow> nat \<Rightarrow> real" where
  "at2 a i j = at1 a (i * ncols a + j)"

text \<open>\<open>a.T\<close> of a two-dimensional array.\<close>

definition transpose2 :: "ndarray \<Rightarrow> ndarray" where
  "transpose2 a = mk2 (ncols a) (nrows a) (\<lambda>i j. at2 a j i)"

text \<open>\<open>np.dot\<close> and \<open>safe_sparse_dot\<close> of two-dimensional arrays.\<close>

definition dot2 :: "ndarray \<Rightarrow> ndarray \<Rightarrow> ndarray" where
  "dot2 a b = mk2 (nrows a) (ncols b)
     (\<lambda>i j. sum_list (map (\<lambda>k. at2 a i k * at2 b k j) [0..<ncols a]))"

text \<open>\<open>y[:, k]\<close> and \<open>a[i]\<close>.\<close>

definition column :: "ndarray \<Rightarrow> nat \<Rightarrow> ndarray" where
  "column a k = mk1 (nrows a) (\<lambda>i. at2 a i k)"

definition row :: "ndarray \<Rightarrow> nat \<Rightarrow> ndarray" where
  "row a i = mk1 (ncols a) (\<lambda>j. at2 a i j)"

text \<open>\<open>A.flat[::n + 1] += c\<close> on a square \<open>n \<times> n\<close> array adds \<open>c\<close> to the diagonal.\<close>

definition add_diag :: "ndarray \<Rightarrow> real \<Rightarrow> ndarray" where
  "add_diag a c = mk2 (nrows a) (ncols a) (\<lambda>i j. at2 a i j + (if i = j then c else 0))"

text \<open>\<open>y.reshape(-1, 1)\<close> of a one-dimensional array, and \<open>a.ravel()\<close>.\<close>

definition reshape_column :: "ndarray \<Rightarrow> ndarray" where
  "reshape_column a = \<lparr> shape = [nrows a, 1], elems = elems a \<rparr>"

definition np_ravel :: "ndarray \<Rightarrow> ndarray" where
  "np_ravel a = \<lparr> shape = [prod_list (shape a)], elems = elems a \<rparr>"

text \<open>
  An array of shape \<open>(n, m)\<close> created by \<open>np.empty\<close> and then filled row by row
  with \<open>coefs[i] = v\<^sub>i\<close>.
\<close>

definition stack_rows :: "nat \<Rightarrow> nat \<Rightarrow> ndarray list \<Rightarrow> ndarray" where
  "stack_rows n m rows = \<lparr> shape = [n, m], elems = concat (map elems rows) \<rparr>"

text \<open>
  Elementwise product of two two-dimensional arrays with the same number of rows,
  broadcasting a single column against many.
\<close>

definition mul_broadcast :: "ndarray \<Rightarrow> ndarray \<Rightarrow> error + ndarray" where
  "mul_broadcast a b =
     (if nrows a \<noteq> nrows b then Inl ValueError
      else if ncols a = ncols b then Inr (mk2 (nrows a) (ncols a) (\<lambda>i j. at2 a i j * at2 b i j))
      else if ncols a = 1 then Inr (mk2 (nrows a) (ncols b) (\<lambda>i j. at2 a i 0 * at2 b i j))
      else if ncols b = 1 then Inr (mk2 (nrows a) (ncols a) (\<lambda>i j. at2 a i j * at2 b i 0))
      else Inl ValueError)"

section \<open>linear\_model/ridge.py: the solvers\<close>

text \<open>
  The design matrix is a dense array or a sparse matrix (its entries are kept; the
  storage format is not modelled). \<open>sample_weight\<close> is a float or a
  one-dimensional array.
\<close>

datatype design = Dense ndarray | Sparse ndarray

fun mat_of :: "design \<Rightarrow> ndarray" where
  "mat_of (Dense a) = a"
| "mat_of (Sparse a) = a"

fun has_array_attr :: "design \<Rightarrow> bool" where
  "has_array_attr (Dense a) = True"
| "has_array_attr (Sparse a) = False"

datatype weight = WScalar real | WArray "real list"

fun weight_given :: "weight \<Rightarrow> bool" where
  "weight_given (WArray w) = True"
| "weight_given (WScalar s) = (s \<noteq> 1)"

text \<open>
  The numeric kernels of scipy are parameters. Each returns the entries of its
  result, or raises; the shapes of the results are those the library documents
  (\<open>linalg.solve(A, b)\<close> has the shape of \<open>b\<close>; the thin SVD of an \<open>n \<times> p\<close>
  matrix has factors of shapes \<open>(n, k)\<close>, \<open>(k)\<close>, \<open>(k, p)\<close> with \<open>k = min n p\<close>;
  \<open>cg\<close> and \<open>lsqr\<close> return a vector). \<open>lsqr_available\<close> is
  \<open>hasattr(sp_linalg, 'lsqr')\<close>.
\<close>

record kernels =
  k_solve :: "ndarray \<Rightarrow> ndarray \<Rightarrow> error + real list"
  k_svd :: "design \<Rightarrow> error + real list \<times> real list \<times> real list"
  k_cg :: "(real list \<Rightarrow> real list) \<Rightarrow> real list \<Rightarrow> nat option \<Rightarrow> real \<Rightarrow> real list \<times> int"
  k_lsqr :: "design \<Rightarrow> real list \<Rightarrow> real \<Rightarrow> real \<Rightarrow> nat option \<Rightarrow> real list"
  lsqr_available :: bool

definition linalg_solve :: "kernels \<Rightarrow> ndarray \<Rightarrow> ndarray \<Rightarrow> ndarray run" where
  "linalg_solve K A b =
     call ''linalg.solve''
       (case k_solve K A b of Inl e \<Rightarrow> Inl e
        | Inr d \<Rightarrow> Inr \<lparr> shape = shape b, elems = d \<rparr>)"

definition linalg_svd :: "kernels \<Rightarrow> design \<Rightarrow> (ndarray \<times> ndarray \<times> ndarray) run" where
  "linalg_svd K X =
     call ''linalg.svd''
       (case k_svd K X of Inl e \<Rightarrow> Inl e
        | Inr (u, s, vt) \<Rightarrow>
            (let n = nrows (mat_of X); p = ncols (mat_of X); k = min n p in
             Inr (\<lparr> shape = [n, k], elems = u \<rparr>,
                  \<lparr> shape = [k], elems = s \<rparr>,
                  \<lparr> shape = [k, p], elems = vt \<rparr>)))"

definition vec_at :: "real list \<Rightarrow> nat \<Rightarrow> real" where
  "vec_at x i = (if i < length x then x ! i else 0)"

text \<open>\<open>X1.matvec(x)\<close> is \<open>X x\<close> and \<open>X1.rmatvec(x)\<close> is \<open>X\<^sup>T x\<close>.\<close>

definition matvec :: "ndarray \<Rightarrow> real list \<Rightarrow> real list" where
  "matvec a x = map (\<lambda>i. sum_list (map (\<lambda>j. at2 a i j * vec_at x j) [0..<ncols a]))
                    [0..<nrows a]"

definition rmatvec :: "ndarray \<Rightarrow> real list \<Rightarrow> real list" where
  "rmatvec a x = map (\<lambda>j. sum_list (map (\<lambda>i. at2 a i j * vec_at x i) [0..<nrows a]))
                     [0..<ncols a]"

definition create_mv :: "ndarray \<Rightarrow> nat \<Rightarrow> nat \<Rightarrow> real \<Rightarrow> real list \<Rightarrow> real list" where
  "create_mv X1 n_samples n_features curr_alpha x =
     (if n_features > n_samples
      then map2 (+) (matvec X1 (rmatvec X1 x)) (map ((*) curr_alpha) x)
      else map2 (+) (rmatvec X1 (matvec X1 x)) (map ((*) curr_alpha) x))"

definition rows_of :: "ndarray \<Rightarrow> ndarray list" where
  "rows_of a = map (row a) [0..<nrows a]"

definition solve_sparse_cg ::
  "kernels \<Rightarrow> design \<Rightarrow> ndarray \<Rightarrow> real list \<Rightarrow> nat option \<Rightarrow> real \<Rightarrow> ndarray run" where
  "solve_sparse_cg K X y alpha max_iter tol =
     bind_run (lift (unpack2 (shape (mat_of X)))) (\<lambda>(n_samples, n_features).
     bind_run
       (for_each (\<lambda>i.
          bind_run (lift (py_nth alpha i)) (\<lambda>alpha_i.
          let y_column = elems (column y i);
              mv = create_mv (mat_of X) n_samples n_features alpha_i in
          if n_features > n_samples then
            bind_run (call ''sp_linalg.cg'' (Inr (k_cg K mv y_column None tol))) (\<lambda>(coef, info).
            if info \<noteq> 0 then raise ValueError
            else ret \<lparr> shape = [n_features], elems = rmatvec (mat_of X) coef \<rparr>)
          else
            bind_run (call ''sp_linalg.cg''
                        (Inr (k_cg K mv (rmatvec (mat_of X) y_column) max_iter tol)))
              (\<lambda>(coef, info).
            if info \<noteq> 0 then raise ValueError
            else ret \<lparr> shape = [n_features], elems = coef \<rparr>)))
          [0..<ncols y])
       (\<lambda>rows. ret (stack_rows (ncols y) n_features rows)))"

definition solve_lsqr ::
  "kernels \<Rightarrow> design \<Rightarrow> ndarray \<Rightarrow> real list \<Rightarrow> nat option \<Rightarrow> real \<Rightarrow> ndarray run" where
  "solve_lsqr K X y alpha max_iter tol =
     bind_run (lift (unpack2 (shape (mat_of X)))) (\<lambda>(n_samples, n_features).
     let sqrt_alpha = map sqrt alpha in
     bind_run
       (for_each (\<lambda>i.
          bind_run (lift (py_nth sqrt_alpha i)) (\<lambda>damp.
          bind_run (call ''sp_linalg.lsqr''
                      (Inr (k_lsqr K X (elems (column y i)) damp tol max_iter))) (\<lambda>coef.
          ret \<lparr> shape = [n_features], elems = coef \<rparr>)))
          [0..<ncols y])
       (\<lambda>rows. ret (stack_rows (ncols y) n_features rows)))"

definition solve_dense_cholesky :: "kernels \<Rightarrow> design \<Rightarrow> ndarray \<Rightarrow> real list \<Rightarrow> ndarray run" where
  "solve_dense_cholesky K X y alpha =
     bind_run (lift (unpack2 (shape (mat_of X)))) (\<lambda>(n_samples, n_features).
     let n_targets = ncols y;
         A = dot2 (transpose2 (mat_of X)) (mat_of X);
         Xy = dot2 (transpose2 (mat_of X)) y in
     bind_run (lift (py_nth alpha 0)) (\<lambda>alpha_0.
     let one_alpha = (alpha = replicate (length alpha) alpha_0) in
     if one_alpha then
       bind_run (linalg_solve K (add_diag A alpha_0) Xy) (\<lambda>sol. ret (transpose2 sol))
     else
       bind_run
         (for_each (\<lambda>(target, current_alpha).
            bind_run (linalg_solve K (add_diag A current_alpha) target) (\<lambda>sol.
            ret (np_ravel sol)))
            (zip (rows_of (transpose2 Xy)) alpha))
         (\<lambda>rows. ret (stack_rows n_targets n_features rows))))"

definition scale_rows :: "ndarray \<Rightarrow> real list \<Rightarrow> ndarray" where
  "scale_rows a sw = mk2 (nrows a) (ncols a) (\<lambda>i j. at2 a i j * vec_at sw i)"

definition scale_cols :: "ndarray \<Rightarrow> real list \<Rightarrow> ndarray" where
  "scale_cols a sw = mk2 (nrows a) (ncols a) (\<lambda>i j. at2 a i j * vec_at sw j)"

definition scale_outer :: "ndarray \<Rightarrow> real list \<Rightarrow> ndarray" where
  "scale_outer a sw = mk2 (nrows a) (ncols a) (\<lambda>i j. at2 a i j * (vec_at sw i * vec_at sw j))"

text \<open>
  \<open>sw = np.sqrt(sample_weight)\<close> followed by \<open>sw[:, np.newaxis]\<close>: a float has no
  such index (IndexError); a weight vector must have \<open>n_samples\<close> entries, or one
  entry that is broadcast, for \<open>y * sw[:, np.newaxis]\<close> and
  \<open>K *= np.outer(sw, sw)\<close> to succeed.
\<close>

definition sqrt_weights :: "weight \<Rightarrow> nat \<Rightarrow> error + real list" where
  "sqrt_weights sample_weight n_samples =
     (case sample_weight of
        WScalar s \<Rightarrow> Inl IndexError
      | WArray w \<Rightarrow>
          if length w = n_samples then Inr (map sqrt w)
          else if length w = 1 then Inr (replicate n_samples (sqrt (hd w)))
          else Inl ValueError)"

definition solve_dense_cholesky_kernel ::
  "kernels \<Rightarrow> ndarray \<Rightarrow> ndarray \<Rightarrow> real list \<Rightarrow> weight \<Rightarrow> ndarray run" where
  "solve_dense_cholesky_kernel K Kmat y0 alpha sample_weight =
     (let n_samples = nrows Kmat; n_targets = ncols y0 in
      bind_run (lift (py_nth alpha 0)) (\<lambda>alpha_0.
      let one_alpha = (alpha = replicate (length alpha) alpha_0);
          has_sw = weight_given sample_weight in
      bind_run (if has_sw
                then bind_run (lift (sqrt_weights sample_weight n_samples)) (\<lambda>sw.
                       ret (Some sw, scale_rows y0 sw, scale_outer Kmat sw))
                else ret (None, y0, Kmat)) (\<lambda>(sw, y, Kw).
      if one_alpha then
        bind_run (linalg_solve K (add_diag Kw alpha_0) y) (\<lambda>dual_coef.
        ret (case sw of None \<Rightarrow> dual_coef | Some w \<Rightarrow> scale_rows dual_coef w))
      else
        bind_run
          (for_each (\<lambda>(target, current_alpha).
             bind_run (linalg_solve K (add_diag Kw current_alpha) target) (\<lambda>sol.
             ret (np_ravel sol)))
             (zip (rows_of (transpose2 y)) alpha))
          (\<lambda>rows.
             let dual_coefs = stack_rows n_targets n_samples rows in
             ret (transpose2 (case sw of None \<Rightarrow> dual_coefs
                                      | Some w \<Rightarrow> scale_cols dual_coefs w))))))"

definition solve_svd :: "kernels \<Rightarrow> design \<Rightarrow> ndarray \<Rightarrow> real list \<Rightarrow> ndarray run" where
  "solve_svd K X y alpha =
     bind_run (linalg_svd K X) (\<lambda>(U, s, Vt).
     let UTy = dot2 (transpose2 U) y;
         d = mk2 (nrows s) (length alpha)
               (\<lambda>i j. if at1 s i > 1 / 10 ^ 15
                       then at1 s i / ((at1 s i)\<^sup>2 + vec_at alpha j) else 0) in
     bind_run (lift (mul_broadcast d UTy)) (\<lambda>d_UT_y.
     ret (transpose2 (dot2 (transpose2 Vt) d_UT_y))))"

section \<open>linear\_model/ridge.py: ridge\_regression\<close>

text \<open>
  \<open>try: ... except linalg.LinAlgError:\<close> around a solve: the variable assigned in
  the \<open>try\<close> body is bound when the solve returns and stays unbound (\<open>None\<close>) when
  LinAlgError is caught; every other exception propagates.
\<close>

definition try_linalg :: "'a run \<Rightarrow> 'a option run" where
  "try_linalg m =
     (case m of
        (Inr a, tr) \<Rightarrow> (Inr (Some a), tr)
      | (Inl e, tr) \<Rightarrow> if e = LinAlgError then (Inr None, tr) else (Inl e, tr))"

definition lsqr_warning :: string where
  "lsqr_warning = ''lsqr not available on this machine, falling back to sparse_cg.''"

definition sw_warning :: string where
  "sw_warning = ''sample_weight and class_weight not supported, fall back to dense_cholesky.''"

text \<open>Lines 247--258: the solver selected before the sample-weight fallback.\<close>

definition resolve_solver :: "kernels \<Rightarrow> design \<Rightarrow> string \<Rightarrow> string run" where
  "resolve_solver K X solver =
     (if solver = ''auto'' then
        (if has_array_attr X then ret ''dense_cholesky'' else ret ''sparse_cg'')
      else if solver = ''lsqr'' \<and> \<not> lsqr_available K then
        bind_run (warn lsqr_warning) (\<lambda>_. ret ''sparse_cg'')
      else ret solver)"

text \<open>
  Lines 278--300. The result is the value of \<open>solver\<close> after the chain and the
  local \<open>coef\<close>, unbound (\<open>None\<close>) when no branch has assigned it. In the kernel
  branch, line 294 reads \<open>dual_coef\<close> after the \<open>try\<close> statement whether or not the
  solve has returned.
\<close>

definition solve_stage ::
  "kernels \<Rightarrow> design \<Rightarrow> ndarray \<Rightarrow> real list \<Rightarrow> weight \<Rightarrow> string \<Rightarrow> nat \<Rightarrow> nat \<Rightarrow> bool
     \<Rightarrow> nat option \<Rightarrow> real \<Rightarrow> (string \<times> ndarray option) run" where
  "solve_stage K X y alpha sample_weight solver n_samples n_features has_sw max_iter tol =
     (if solver = ''sparse_cg'' then
        bind_run (solve_sparse_cg K X y alpha max_iter tol) (\<lambda>coef. ret (solver, Some coef))
      else if solver = ''lsqr'' then
        bind_run (solve_lsqr K X y alpha max_iter tol) (\<lambda>coef. ret (solver, Some coef))
      else if solver = ''dense_cholesky'' then
        (if n_features > n_samples \<or> has_sw then
           (let Kmat = dot2 (mat_of X) (transpose2 (mat_of X)) in
            bind_run (try_linalg (solve_dense_cholesky_kernel K Kmat y alpha sample_weight))
              (\<lambda>dual_coef.
            let solver' = (if dual_coef = None then ''svd'' else solver) in
            case dual_coef of
              None \<Rightarrow> raise UnboundLocalError
            | Some d \<Rightarrow> ret (solver', Some (transpose2 (dot2 (transpose2 (mat_of X)) d)))))
         else
           bind_run (try_linalg (solve_dense_cholesky K X y alpha)) (\<lambda>coef.
           ret (if coef = None then ''svd'' else solver, coef)))
      else ret (solver, None))"

text \<open>
  \<open>alpha\<close> is given after \<open>safe_asarray(alpha).ravel()\<close>, as the list of its
  entries. At line 275 the source builds a ValueError for an unknown solver name but
  does not raise it, so that statement has no effect and no counterpart here.
\<close>

definition ridge_solve ::
  "kernels \<Rightarrow> design \<Rightarrow> ndarray \<Rightarrow> real list \<Rightarrow> weight \<Rightarrow> string \<Rightarrow> nat option \<Rightarrow> real
     \<Rightarrow> nat \<Rightarrow> nat \<Rightarrow> nat \<Rightarrow> bool \<Rightarrow> ndarray run" where
  "ridge_solve K X y alpha0 sample_weight solver0 max_iter tol
       n_samples n_features n_targets ravel =
     (let has_sw = weight_given sample_weight in
      bind_run (resolve_solver K X solver0) (\<lambda>solver1.
      bind_run (if has_sw \<and> solver1 \<noteq> ''dense_cholesky''
                then bind_run (warn sw_warning) (\<lambda>_. ret ''dense_cholesky'')
                else ret solver1) (\<lambda>solver2.
      if length alpha0 \<noteq> 1 \<and> length alpha0 \<noteq> n_targets then raise ValueError else
      let alpha = (if length alpha0 = 1 \<and> n_targets > 1
                   then replicate n_targets (hd alpha0) else alpha0) in
      bind_run (solve_stage K X y alpha sample_weight solver2 n_samples n_features has_sw
                  max_iter tol) (\<lambda>(solver3, coef0).
      bind_run (if solver3 = ''svd''
                then bind_run (solve_svd K X y alpha) (\<lambda>c. ret (Some c))
                else ret coef0) (\<lambda>coef.
      case coef of
        None \<Rightarrow> raise UnboundLocalError
      | Some c \<Rightarrow> ret (if ravel then np_ravel c else c))))))"

text \<open>
  \<open>ridge_regression\<close>: lines 229--243 validate the shapes; \<open>ridge_solve\<close> is the
  rest of the body (lines 245--309).
\<close>

definition ridge_regression ::
  "kernels \<Rightarrow> design \<Rightarrow> ndarray \<Rightarrow> real list \<Rightarrow> weight \<Rightarrow> string \<Rightarrow> nat option \<Rightarrow> real
     \<Rightarrow> ndarray run" where
  "ridge_regression K X y0 alpha0 sample_weight solver0 max_iter tol =
     bind_run (lift (unpack2 (shape (mat_of X)))) (\<lambda>(n_samples, n_features).
     if ndim y0 > 2 then raise ValueError else
     let ravel = (ndim y0 = 1);
         y = (if ndim y0 = 1 then reshape_column y0 else y0) in
     bind_run (lift (unpack2 (shape y))) (\<lambda>(n_samples', n_targets).
     if n_samples \<noteq> n_samples' then raise ValueError else
     ridge_solve K X y alpha0 sample_weight solver0 max_iter tol
       n_samples n_features n_targets ravel))"

text \<open>
  Kernels that are exact on one-by-one systems, enough to run small examples: a
  zero pivot is reported as singular, as the Cholesky factorisation does.
\<close>

definition scalar_kernels :: kernels where
  "scalar_kernels =
     \<lparr> k_solve = (\<lambda>A b. if shape A = [1, 1] \<and> at2 A 0 0 \<noteq> 0
                         then Inr (map (\<lambda>v. v / at2 A 0 0) (elems b))
                         else Inl LinAlgError),
       k_svd = (\<lambda>X. if shape (mat_of X) = [1, 1]
                     then Inr ([1], [\<bar>at2 (mat_of X) 0 0\<bar>], [sgn (at2 (mat_of X) 0 0)])
                     else Inl LinAlgError),
       k_cg = (\<lambda>mv b max_iter tol.
                 if length b = 1 \<and> vec_at (mv [1]) 0 \<noteq> 0
                 then ([vec_at b 0 / vec_at (mv [1]) 0], 0) else (b, 1)),
       k_lsqr = (\<lambda>X b damp tol max_iter.
                 map (\<lambda>v. v * at2 (mat_of X) 0 0 / ((at2 (mat_of X) 0 0)\<^sup>2 + damp\<^sup>2)) b),
       lsqr_available = True \<rparr>"

definition arr1 :: "real list \<Rightarrow> ndarray" where
  "arr1 xs = \<lparr> shape = [length xs], elems = xs \<rparr>"

definition arr2 :: "real list list \<Rightarrow> ndarray" where
  "arr2 rows = \<lparr> shape = [length rows, (case rows of [] \<Rightarrow> 0 | r # _ \<Rightarrow> length r)],
                 elems = concat rows \<rparr>"

section \<open>linear\_model/coordinate\_descent.py: \_alpha\_grid\<close>

text \<open>
  A float array whose entries are all finite is the list of its entries; an array
  holding an infinity or a NaN (from a division by zero or the logarithm of a
  non-positive number, which numpy reports with a warning and not an exception) is
  \<open>NonFinite\<close>.
\<close>

datatype float_array = Finite "real list" | NonFinite

fun is_sparse :: "design \<Rightarrow> bool" where
  "is_sparse (Dense a) = False"
| "is_sparse (Sparse a) = True"

text \<open>
  \<open>np.linspace(a, b, num)\<close> and \<open>np.logspace(a, b, num)\<close>; for \<open>num = 1\<close> the
  only sample is the start point.
\<close>

definition np_linspace :: "real \<Rightarrow> real \<Rightarrow> nat \<Rightarrow> real list" where
  "np_linspace a b num =
     (if num = 1 then [a]
      else map (\<lambda>i. a + real i * ((b - a) / real (num - 1))) [0..<num])"

definition np_logspace :: "real \<Rightarrow> real \<Rightarrow> nat \<Rightarrow> real list" where
  "np_logspace a b num = map (\<lambda>x. 10 powr x) (np_linspace a b num)"

text \<open>
  Lines 84--87, from \<open>Xy\<close> and \<open>n_samples\<close>: \<open>np.abs(Xy).max()\<close> raises ValueError
  on an empty array; an empty grid is requested with \<open>n_alphas = 0\<close>.
\<close>

definition grid_of :: "real list \<Rightarrow> nat \<Rightarrow> real \<Rightarrow> real \<Rightarrow> nat \<Rightarrow> error + float_array" where
  "grid_of Xy n_samples l1_ratio eps n_alphas =
     (case np_max (map abs Xy) of
        Inl e \<Rightarrow> Inl e
      | Inr m \<Rightarrow>
          if n_alphas = 0 then Inr (Finite [])
          else if real n_samples * l1_ratio = 0 then Inr NonFinite
          else
            (let alpha_max = m / (real n_samples * l1_ratio) in
             if alpha_max \<le> 0 \<or> alpha_max * eps \<le> 0 then Inr NonFinite
             else Inr (Finite (rev (np_logspace (log 10 (alpha_max * eps))
                                                 (log 10 alpha_max) n_alphas)))))"

text \<open>
  The functions of other modules used by the path functions are fields of an
  environment: array conversion, \<open>center_data\<close> and \<open>_pre_fit\<close> of
  \<open>linear_model.base\<close>, the two coordinate-descent kernels of \<open>cd_fast\<close> (each
  returns the coefficients, the dual gap and the threshold \<open>eps_\<close> the gap is
  compared with), the multi-task kernel, and \<open>_set_intercept\<close>. \<open>uninit\<close> is the
  content of memory obtained from \<open>np.empty\<close> and not yet written.
\<close>

datatype precompute = PAuto | PBool bool | PGram ndarray

record enet_model =
  m_alpha :: real
  m_l1_ratio :: real
  m_fit_intercept :: bool
  m_precompute :: precompute
  m_coef :: "real list"
  m_dual_gap :: real
  m_intercept :: real

record cd_env =
  atleast2d_or_csc :: "design \<Rightarrow> error + design"
  center_data :: "design \<Rightarrow> real list \<Rightarrow> bool \<Rightarrow> bool \<Rightarrow> design \<times> real list"
  pre_fit :: "design \<Rightarrow> real list \<Rightarrow> real list option \<Rightarrow> precompute \<Rightarrow> bool \<Rightarrow> bool
                \<Rightarrow> error + (design \<times> real list \<times> real list \<times> real \<times> real list
                            \<times> precompute \<times> real list option)"
  enet_coordinate_descent ::
    "real list \<Rightarrow> real \<Rightarrow> real \<Rightarrow> design \<Rightarrow> real list \<Rightarrow> nat \<Rightarrow> real \<Rightarrow> bool
       \<Rightarrow> real list \<times> real \<times> real"
  sparse_enet_coordinate_descent ::
    "real list \<Rightarrow> real \<Rightarrow> real \<Rightarrow> design \<Rightarrow> real list \<Rightarrow> real list \<Rightarrow> nat \<Rightarrow> real \<Rightarrow> bool
       \<Rightarrow> real list \<times> real \<times> real"
  set_intercept :: "enet_model \<Rightarrow> real list \<Rightarrow> real \<Rightarrow> real list \<Rightarrow> enet_model"
  uninit :: real

text \<open>
  Lines 71--82: \<open>Xy\<close> and \<open>n_samples\<close>, from the precomputed \<open>Xy\<close> when it is
  given and otherwise from the data, centred by \<open>center_data\<close> unless \<open>X\<close> is
  sparse. The product \<open>safe_sparse_dot(X.T, y)\<close> raises ValueError when \<open>y\<close> does
  not have one entry per row of \<open>X\<close>.
\<close>

definition grid_inputs ::
  "cd_env \<Rightarrow> design \<Rightarrow> real list \<Rightarrow> real list option \<Rightarrow> bool \<Rightarrow> bool
     \<Rightarrow> (real list \<times> nat) run" where
  "grid_inputs env X y Xy fit_intercept normalize_X =
     (case Xy of
        None \<Rightarrow>
          bind_run (call ''atleast2d_or_csc'' (atleast2d_or_csc env X)) (\<lambda>X1.
          let (X2, y2) = (if \<not> is_sparse X1
                          then center_data env X1 y fit_intercept normalize_X
                          else (X1, y)) in
          if length y2 \<noteq> nrows (mat_of X2) then raise ValueError
          else ret (rmatvec (mat_of X2) y2, nrows (mat_of X2)))
      | Some v \<Rightarrow> ret (v, length y))"

definition alpha_grid ::
  "cd_env \<Rightarrow> design \<Rightarrow> real list \<Rightarrow> real list option \<Rightarrow> real \<Rightarrow> bool \<Rightarrow> real \<Rightarrow> nat
     \<Rightarrow> bool \<Rightarrow> bool \<Rightarrow> float_array run" where
  "alpha_grid env X y Xy l1_ratio fit_intercept eps n_alphas normalize_X copy_X =
     bind_run (grid_inputs env X y Xy fit_intercept normalize_X)
       (\<lambda>(Xy', n_samples). lift (grid_of Xy' n_samples l1_ratio eps n_alphas))"

text \<open>
  The grid in the words of the specification: \<open>n_alphas\<close> values in geometric
  progression from \<open>alpha_max\<close> down to \<open>alpha_max * eps\<close>. It is compared with
  \<open>alpha_grid\<close> below.
\<close>

definition log_spaced_grid :: "real \<Rightarrow> real \<Rightarrow> nat \<Rightarrow> real list" where
  "log_spaced_grid alpha_max eps n_alphas =
     map (\<lambda>i. alpha_max * eps powr (real i / real (n_alphas - 1))) [0..<n_alphas]"

text \<open>
  \<open>alpha_max\<close> in the words of the specification,
  \<open>max\<^sub>j |X\<^sub>j \<sqdot> y| / (n_samples * l1_ratio)\<close> over the columns \<open>X\<^sub>j\<close> of the data.
  It is compared with \<open>alpha_grid\<close> below.
\<close>

definition spec_alpha_max :: "ndarray \<Rightarrow> real list \<Rightarrow> real \<Rightarrow> real" where
  "spec_alpha_max A y l1_ratio =
     Max ((\<lambda>j. \<bar>\<Sum>i<nrows A. at2 A i j * y ! i\<bar>) ` {..<ncols A})
       / (real (nrows A) * l1_ratio)"

section \<open>linear\_model/coordinate\_descent.py: enet\_path and lasso\_path\<close>

text \<open>
  The keyword arguments the path functions read from \<open>**params\<close>, and the named
  arguments other than \<open>X\<close>, \<open>y\<close> and \<open>l1_ratio\<close>; \<open>None\<close> is Python's \<open>None\<close>
  or an absent key. \<open>verbose\<close> is a non-negative integer (\<open>True\<close> is 1).
\<close>

record cd_params =
  p_tol :: "real option"
  p_positive :: "bool option"
  p_max_iter :: "nat option"
  p_X_mean :: "real list option"
  p_X_std :: "real list option"

record path_args =
  a_eps :: "real option"
  a_n_alphas :: "nat option"
  a_alphas :: "real list option"
  a_precompute :: precompute
  a_Xy :: "real list option"
  a_fit_intercept :: "bool option"
  a_normalize :: "bool option"
  a_copy_X :: bool
  a_coef_init :: "real list option"
  a_verbose :: nat
  a_return_models :: bool
  a_params :: cd_params

text \<open>
  The result: the list of models, or the triple \<open>(alphas, coefs, dual_gaps)\<close> with
  \<open>coefs\<close> given by its columns, one per alpha. \<open>NonFinitePath\<close> stands for a
  path over a default grid that holds an infinity or a NaN.
\<close>

datatype path_result =
    Models "enet_model list"
  | Path "real list" "real list list" "real list"
  | NonFinitePath

text \<open>The values fixed before the loop of lines 409--448, and the loop state.\<close>

record path_ctx =
  c_X :: design
  c_y :: "real list"
  c_X_sparse_scaling :: "real list option"
  c_l1_ratio :: real
  c_n_samples :: nat
  c_n_alphas :: nat
  c_max_iter :: nat
  c_tol :: real
  c_positive :: bool
  c_return_models :: bool
  c_verbose :: nat
  c_fit_intercept :: bool
  c_precompute :: precompute
  c_X_mean :: "real list"
  c_y_mean :: real
  c_X_std :: "real list"

record path_state =
  s_coef :: "real list"
  s_coefs :: "real list list"
  s_dual_gaps :: "real list"
  s_models :: "enet_model list"
  s_model :: "enet_model option"

definition not_converged_warning :: string where
  "not_converged_warning =
     ''Objective did not converge. You might want to increase the number of iterations''"

text \<open>\<open>a[-1]\<close> raises IndexError on an empty array.\<close>

definition py_last :: "'a list \<Rightarrow> error + 'a" where
  "py_last xs = (if xs = [] then Inl IndexError else Inr (last xs))"

text \<open>
  One iteration of the loop, for the alpha at position \<open>i\<close>. The local \<open>model\<close>
  is bound only when \<open>return_models\<close> is set; \<open>print(model)\<close> reads it.
\<close>

definition enet_step :: "cd_env \<Rightarrow> path_ctx \<Rightarrow> nat \<Rightarrow> real \<Rightarrow> path_state \<Rightarrow> path_state run" where
  "enet_step env c i alpha st =
     (let l1_reg = alpha * c_l1_ratio c * real (c_n_samples c);
          l2_reg = alpha * (1 - c_l1_ratio c) * real (c_n_samples c) in
      bind_run
        (if is_sparse (c_X c) then
           (case c_X_sparse_scaling c of
              None \<Rightarrow> raise UnboundLocalError
            | Some scaling \<Rightarrow>
                call ''cd_fast.sparse_enet_coordinate_descent''
                  (Inr (sparse_enet_coordinate_descent env (s_coef st) l1_reg l2_reg (c_X c)
                          (c_y c) scaling (c_max_iter c) (c_tol c) (c_positive c))))
         else
           call ''cd_fast.enet_coordinate_descent''
             (Inr (enet_coordinate_descent env (s_coef st) l1_reg l2_reg (c_X c) (c_y c)
                     (c_max_iter c) (c_tol c) (c_positive c))))
        (\<lambda>(coef, dual_gap, eps_cd).
      bind_run (if dual_gap > eps_cd then warn not_converged_warning else ret ()) (\<lambda>_.
      let coefs = (s_coefs st)[i := coef];
          dual_gaps = (s_dual_gaps st)[i := dual_gap] in
      bind_run
        (if c_return_models c then
           bind_run (lift (py_last dual_gaps)) (\<lambda>last_gap.
           let model0 = \<lparr> m_alpha = alpha, m_l1_ratio = c_l1_ratio c,
                          m_fit_intercept = (if is_sparse (c_X c) then c_fit_intercept c
                                             else False),
                          m_precompute = c_precompute c,
                          m_coef = coef, m_dual_gap = last_gap, m_intercept = 0 \<rparr>;
               model = (if c_fit_intercept c \<and> \<not> is_sparse (c_X c)
                        then set_intercept env (model0\<lparr>m_fit_intercept := True\<rparr>)
                               (c_X_mean c) (c_y_mean c) (c_X_std c)
                        else model0) in
           ret (s_models st @ [model], Some model))
         else ret (s_models st, s_model st))
        (\<lambda>(models, model).
      bind_run
        (if c_verbose c > 0 then
           (if c_verbose c > 2 then
              (case model of None \<Rightarrow> raise UnboundLocalError
               | Some m \<Rightarrow> (Inr (), [Print ''model'']))
            else if c_verbose c > 1 then (Inr (), [Print ''Path''])
            else (Inr (), [Print ''.'']))
         else ret ())
        (\<lambda>_. ret \<lparr> s_coef = coef, s_coefs = coefs, s_dual_gaps = dual_gaps,
                     s_models = models, s_model = model \<rparr>)))))"

fun enet_loop ::
  "cd_env \<Rightarrow> path_ctx \<Rightarrow> nat \<Rightarrow> real list \<Rightarrow> path_state \<Rightarrow> path_state run" where
  "enet_loop env c i [] st = ret st"
| "enet_loop env c i (alpha # alphas) st =
     bind_run (enet_step env c i alpha st) (\<lambda>st'. enet_loop env c (Suc i) alphas st')"

definition depr_models_warning :: string where
  "depr_models_warning = ''Use enet_path(return_models=False)''"

definition depr_normalize_warning :: string where
  "depr_normalize_warning = ''normalize param will be removed in 0.16.''"

definition depr_intercept_warning :: string where
  "depr_intercept_warning = ''fit_intercept param will be removed in 0.16.''"

text \<open>\<open>params['X_mean'] / params['X_std']\<close> for two arrays of the same length.\<close>

definition np_divide :: "real list \<Rightarrow> real list \<Rightarrow> error + real list" where
  "np_divide xs ys =
     (if length xs = length ys then Inr (map2 (/) xs ys) else Inl ValueError)"

text \<open>
  The default grid of lines 385--390. With \<open>eps=None\<close> or \<open>n_alphas=None\<close> the
  arithmetic of \<open>_alpha_grid\<close> raises TypeError once \<open>Xy\<close> has been computed and
  its maximum taken.
\<close>

definition default_alphas ::
  "cd_env \<Rightarrow> design \<Rightarrow> real list \<Rightarrow> real list option \<Rightarrow> real \<Rightarrow> real option \<Rightarrow> nat option
     \<Rightarrow> float_array run" where
  "default_alphas env X y Xy l1_ratio eps n_alphas =
     (case (eps, n_alphas) of
        (Some e, Some n) \<Rightarrow> alpha_grid env X y Xy l1_ratio False e n False False
      | _ \<Rightarrow>
          bind_run (grid_inputs env X y Xy False False) (\<lambda>(Xy', n_samples).
          bind_run (lift (np_max (map abs Xy'))) (\<lambda>_. raise TypeError)))"

definition enet_path_kw ::
  "cd_env \<Rightarrow> design \<Rightarrow> real list \<Rightarrow> real \<Rightarrow> real option \<Rightarrow> nat option \<Rightarrow> real list option
     \<Rightarrow> precompute \<Rightarrow> real list option \<Rightarrow> bool option \<Rightarrow> bool option \<Rightarrow> bool
     \<Rightarrow> real list option \<Rightarrow> nat \<Rightarrow> bool \<Rightarrow> cd_params \<Rightarrow> path_result run" where
  "enet_path_kw env X0 y0 l1_ratio eps n_alphas0 alphas0 precompute0 Xy0 fit_intercept0
       normalize0 copy_X coef_init0 verbose return_models params =
     bind_run (if return_models then warn depr_models_warning else ret ()) (\<lambda>_.
     bind_run (if normalize0 = Some True then warn depr_normalize_warning else ret ())
       (\<lambda>_.
     let normalize_X = (normalize0 = Some True) in
     bind_run (if fit_intercept0 = Some True \<or> fit_intercept0 = None
               then warn depr_intercept_warning else ret ()) (\<lambda>_.
     let fit_intercept = (case fit_intercept0 of None \<Rightarrow> True | Some b \<Rightarrow> b) in
     bind_run (call ''atleast2d_or_csc'' (atleast2d_or_csc env X0)) (\<lambda>X1.
     bind_run (lift (unpack2 (shape (mat_of X1)))) (\<lambda>(n_samples0, n_features).
     bind_run
       (if is_sparse X1 then
          (case p_X_mean params of
             Some X_mean' \<Rightarrow>
               (case p_X_std params of
                  None \<Rightarrow> raise KeyError
                | Some X_std' \<Rightarrow>
                    bind_run (lift (np_divide X_mean' X_std')) (\<lambda>r. ret (Some r)))
           | None \<Rightarrow> ret (Some (replicate n_features 1)))
        else ret None) (\<lambda>X_sparse_scaling.
     bind_run (call ''_pre_fit''
                 (pre_fit env X1 y0 Xy0 precompute0 normalize_X fit_intercept))
       (\<lambda>(X, y, X_mean, y_mean, X_std, precompute', Xy).
     let n_samples = nrows (mat_of X) in
     bind_run
       (case alphas0 of
          None \<Rightarrow> default_alphas env X y Xy l1_ratio eps n_alphas0
        | Some given \<Rightarrow> ret (Finite (rev (sort given)))) (\<lambda>grid.
     case grid of
       NonFinite \<Rightarrow> ret NonFinitePath
     | Finite alphas \<Rightarrow>
         (let n_alphas = length alphas;
              coef_init = (case coef_init0 of
                             None \<Rightarrow> replicate n_features 0 | Some ci \<Rightarrow> ci);
              ctx = \<lparr> c_X = X, c_y = y, c_X_sparse_scaling = X_sparse_scaling,
                      c_l1_ratio = l1_ratio, c_n_samples = n_samples, c_n_alphas = n_alphas,
                      c_max_iter = (case p_max_iter params of
                                      None \<Rightarrow> 1000 | Some m \<Rightarrow> m),
                      c_tol = (case p_tol params of
                                 None \<Rightarrow> 1 / 10 ^ 4 | Some t \<Rightarrow> t),
                      c_positive = (case p_positive params of
                                      None \<Rightarrow> False | Some b \<Rightarrow> b),
                      c_return_models = return_models, c_verbose = verbose,
                      c_fit_intercept = fit_intercept, c_precompute = precompute',
                      c_X_mean = X_mean, c_y_mean = y_mean, c_X_std = X_std \<rparr>;
              st0 = \<lparr> s_coef = coef_init,
                      s_coefs = replicate n_alphas (replicate n_features (uninit env)),
                      s_dual_gaps = replicate n_alphas (uninit env),
                      s_models = [], s_model = None \<rparr> in
          bind_run (enet_loop env ctx 0 alphas st0) (\<lambda>st.
          ret (if return_models then Models (s_models st)
               else Path alphas (s_coefs st) (s_dual_gaps st))))))))))))"

text \<open>
  \<open>enet_path\<close> with its keyword arguments collected in a record.
\<close>

definition enet_path :: "cd_env \<Rightarrow> design \<Rightarrow> real list \<Rightarrow> real \<Rightarrow> path_args \<Rightarrow> path_result run" where
  "enet_path env X y l1_ratio args =
     enet_path_kw env X y l1_ratio (a_eps args) (a_n_alphas args) (a_alphas args)
       (a_precompute args) (a_Xy args) (a_fit_intercept args) (a_normalize args)
       (a_copy_X args) (a_coef_init args) (a_verbose args) (a_return_models args)
       (a_params args)"

text \<open>\<open>lasso_path\<close> (lines 229--233) passes every argument on and fixes \<open>l1_ratio\<close>.\<close>

definition lasso_path :: "cd_env \<Rightarrow> design \<Rightarrow> real list \<Rightarrow> path_args \<Rightarrow> path_result run" where
  "lasso_path env X y args = enet_path env X y 1 args"

definition no_params :: cd_params where
  "no_params = \<lparr> p_tol = None, p_positive = None, p_max_iter = None,
                  p_X_mean = None, p_X_std = None \<rparr>"

text \<open>The default arguments of the two signatures (lines 90--94 and 236--240).\<close>

definition enet_path_defaults :: path_args where
  "enet_path_defaults =
     \<lparr> a_eps = Some (1 / 1000), a_n_alphas = Some 100, a_alphas = None,
       a_precompute = PAuto, a_Xy = None, a_fit_intercept = Some True,
       a_normalize = Some False, a_copy_X = True, a_coef_init = None, a_verbose = 0,
       a_return_models = False, a_params = no_params \<rparr>"

definition lasso_path_defaults :: path_args where
  "lasso_path_defaults =
     \<lparr> a_eps = Some (1 / 1000), a_n_alphas = Some 100, a_alphas = None,
       a_precompute = PAuto, a_Xy = None, a_fit_intercept = None,
       a_normalize = None, a_copy_X = True, a_coef_init = None, a_verbose = 0,
       a_return_models = False, a_params = no_params \<rparr>"

section \<open>linear\_model/coordinate\_descent.py: ElasticNet and Lasso\<close>

text \<open>
  The attributes of an \<open>ElasticNet\<close> instance. \<open>Lasso\<close> is a subclass that adds
  no attribute and overrides only \<open>__init__\<close>; both classes set
  \<open>path = staticmethod(enet_path)\<close> and \<open>Lasso\<close> inherits \<open>fit\<close>.
\<close>

record elastic_net =
  en_alpha :: real
  en_l1_ratio :: real
  en_coef :: "ndarray option"
  en_fit_intercept :: bool
  en_normalize :: bool
  en_precompute :: precompute
  en_max_iter :: nat
  en_copy_X :: bool
  en_tol :: real
  en_warm_start :: bool
  en_positive :: bool
  en_intercept :: "real list"
  en_dual_gap :: "ndarray option"

definition elastic_net_init ::
  "real \<Rightarrow> real \<Rightarrow> bool \<Rightarrow> bool \<Rightarrow> precompute \<Rightarrow> nat \<Rightarrow> bool \<Rightarrow> real \<Rightarrow> bool \<Rightarrow> bool
     \<Rightarrow> elastic_net" where
  "elastic_net_init alpha l1_ratio fit_intercept normalize_X precompute' max_iter copy_X tol
       warm_start positive =
     \<lparr> en_alpha = alpha, en_l1_ratio = l1_ratio, en_coef = None,
       en_fit_intercept = fit_intercept, en_normalize = normalize_X,
       en_precompute = precompute', en_max_iter = max_iter, en_copy_X = copy_X,
       en_tol = tol, en_warm_start = warm_start, en_positive = positive,
       en_intercept = [0], en_dual_gap = None \<rparr>"

text \<open>\<open>Lasso.__init__\<close> (lines 764--771).\<close>

definition lasso_init ::
  "real \<Rightarrow> bool \<Rightarrow> bool \<Rightarrow> precompute \<Rightarrow> bool \<Rightarrow> nat \<Rightarrow> real \<Rightarrow> bool \<Rightarrow> bool
     \<Rightarrow> elastic_net" where
  "lasso_init alpha fit_intercept normalize_X precompute' copy_X max_iter tol
       warm_start positive =
     elastic_net_init alpha 1 fit_intercept normalize_X precompute' max_iter copy_X tol
       warm_start positive"

text \<open>
  What \<open>fit\<close> uses from other modules: \<open>_pre_fit\<close> at a target of one or two
  dimensions, and \<open>_set_intercept\<close> of \<open>LinearModel\<close>.
\<close>

record fit_env =
  pre_fit_nd :: "design \<Rightarrow> ndarray \<Rightarrow> precompute \<Rightarrow> bool \<Rightarrow> bool
                   \<Rightarrow> error + (design \<times> ndarray \<times> real list \<times> real list \<times> real list
                               \<times> precompute \<times> ndarray option)"
  en_set_intercept :: "elastic_net \<Rightarrow> real list \<Rightarrow> real list \<Rightarrow> real list \<Rightarrow> elastic_net"

definition zeros2 :: "nat \<Rightarrow> nat \<Rightarrow> ndarray" where
  "zeros2 n m = mk2 n m (\<lambda>i j. 0)"

definition set_row :: "ndarray \<Rightarrow> nat \<Rightarrow> real list \<Rightarrow> ndarray" where
  "set_row a k v = mk2 (nrows a) (ncols a) (\<lambda>i j. if i = k then vec_at v j else at2 a i j)"

text \<open>\<open>np.squeeze\<close> removes the axes of length one.\<close>

definition np_squeeze :: "ndarray \<Rightarrow> ndarray" where
  "np_squeeze a = \<lparr> shape = filter (\<lambda>d. d \<noteq> 1) (shape a), elems = elems a \<rparr>"

definition alpha_zero_warning :: string where
  "alpha_zero_warning = ''With alpha=0, this algorithm does not converge well.''"

text \<open>
  The body of the loop over the targets (lines 619--634): one call of \<open>self.path\<close>
  with the single alpha of the estimator, warm-started from row \<open>k\<close> of \<open>coef_\<close>.
  The call passes \<open>alphas\<close> and leaves \<open>return_models\<close> unset, so the result is a
  triple.
\<close>

definition fit_target ::
  "cd_env \<Rightarrow> elastic_net \<Rightarrow> design \<Rightarrow> ndarray \<Rightarrow> ndarray option \<Rightarrow> precompute
     \<Rightarrow> real list \<Rightarrow> real list \<Rightarrow> nat \<Rightarrow> ndarray \<times> real list \<Rightarrow> (ndarray \<times> real list) run" where
  "fit_target env self X y Xy precompute' X_mean X_std k acc =
     (case acc of (coef, dual_gaps) \<Rightarrow>
      if k \<ge> nrows coef then raise IndexError else
      bind_run
        (enet_path env X (elems (column y k)) (en_l1_ratio self)
           \<lparr> a_eps = None, a_n_alphas = None, a_alphas = Some [en_alpha self],
             a_precompute = precompute',
             a_Xy = map_option (\<lambda>v. elems (column v k)) Xy,
             a_fit_intercept = Some False, a_normalize = Some False, a_copy_X = True,
             a_coef_init = Some (elems (row coef k)), a_verbose = 0,
             a_return_models = False,
             a_params = \<lparr> p_tol = Some (en_tol self), p_positive = Some (en_positive self),
                          p_max_iter = Some (en_max_iter self),
                          p_X_mean = Some X_mean, p_X_std = Some X_std \<rparr> \<rparr>)
        (\<lambda>r. case r of
           Path alphas this_coef this_dual_gap \<Rightarrow>
             bind_run (lift (py_nth this_coef 0)) (\<lambda>col.
             bind_run (lift (py_nth this_dual_gap 0)) (\<lambda>gap.
             ret (set_row coef k col, dual_gaps[k := gap])))
         | _ \<Rightarrow> raise ValueError))"

fun fit_targets ::
  "(nat \<Rightarrow> ndarray \<times> real list \<Rightarrow> (ndarray \<times> real list) run) \<Rightarrow> nat list
     \<Rightarrow> ndarray \<times> real list \<Rightarrow> (ndarray \<times> real list) run" where
  "fit_targets body [] acc = ret acc"
| "fit_targets body (k # ks) acc = bind_run (body k acc) (\<lambda>acc'. fit_targets body ks acc')"

definition elastic_net_fit ::
  "cd_env \<Rightarrow> fit_env \<Rightarrow> elastic_net \<Rightarrow> design \<Rightarrow> ndarray \<Rightarrow> elastic_net run" where
  "elastic_net_fit env fenv self X0 y0 =
     bind_run (if en_alpha self = 0 then warn alpha_zero_warning else ret ()) (\<lambda>_.
     bind_run (call ''atleast2d_or_csc'' (atleast2d_or_csc env X0)) (\<lambda>X1.
     bind_run (call ''_pre_fit''
                 (pre_fit_nd fenv X1 y0 (en_precompute self) (en_normalize self)
                    (en_fit_intercept self)))
       (\<lambda>(X, y1, X_mean, y_mean, X_std, precompute', Xy1).
     let y = (if ndim y1 = 1 then reshape_column y1 else y1);
         Xy = map_option (\<lambda>v. if ndim v = 1 then reshape_column v else v) Xy1 in
     bind_run (lift (unpack2 (shape (mat_of X)))) (\<lambda>(n_samples, n_features).
     bind_run (lift (py_nth (shape y) 1)) (\<lambda>n_targets.
     let coef0 = (case en_coef self of
                    None \<Rightarrow> zeros2 n_targets n_features
                  | Some c \<Rightarrow>
                      if \<not> en_warm_start self then zeros2 n_targets n_features
                      else if ndim c = 1 then \<lparr> shape = 1 # shape c, elems = elems c \<rparr>
                      else c) in
     bind_run (fit_targets (fit_target env self X y Xy precompute' X_mean X_std)
                 [0..<n_targets] (coef0, replicate n_targets 0)) (\<lambda>(coef, dual_gaps).
     ret (en_set_intercept fenv
            (self\<lparr> en_coef := Some (np_squeeze coef),
                   en_dual_gap := Some (np_squeeze (arr1 dual_gaps)) \<rparr>)
            X_mean y_mean X_std)))))))"

section \<open>linear\_model/coordinate\_descent.py: MultiTaskElasticNet.fit\<close>

record mt_elastic_net =
  mt_alpha :: real
  mt_l1_ratio :: real
  mt_coef :: "ndarray option"
  mt_fit_intercept :: bool
  mt_normalize :: bool
  mt_max_iter :: nat
  mt_copy_X :: bool
  mt_tol :: real
  mt_warm_start :: bool
  mt_dual_gap :: "real option"
  mt_eps :: "real option"
  mt_intercept :: "real list"

record mt_env =
  array2d :: "design \<Rightarrow> error + design"
  center_data_nd :: "design \<Rightarrow> ndarray \<Rightarrow> bool \<Rightarrow> bool
                       \<Rightarrow> design \<times> ndarray \<times> real list \<times> real list \<times> real list"
  enet_coordinate_descent_multi_task ::
    "ndarray \<Rightarrow> real \<Rightarrow> real \<Rightarrow> design \<Rightarrow> ndarray \<Rightarrow> nat \<Rightarrow> real \<Rightarrow> ndarray \<times> real \<times> real"
  mt_set_intercept ::
    "mt_elastic_net \<Rightarrow> real list \<Rightarrow> real list \<Rightarrow> real list \<Rightarrow> mt_elastic_net"

definition mt_not_converged_warning :: string where
  "mt_not_converged_warning =
     ''Objective did not converge, you might want to increase the number of iterations''"

definition multi_task_fit ::
  "mt_env \<Rightarrow> mt_elastic_net \<Rightarrow> design \<Rightarrow> ndarray \<Rightarrow> mt_elastic_net run" where
  "multi_task_fit env self X0 y0 =
     bind_run (call ''array2d'' (array2d env X0)) (\<lambda>X1.
     let squeeze_me = (ndim y0 = 1);
         y1 = (if ndim y0 = 1 then reshape_column y0 else y0) in
     bind_run (lift (unpack2 (shape (mat_of X1)))) (\<lambda>(n_samples, n_features).
     bind_run (lift (unpack2 (shape y1))) (\<lambda>(n_samples', n_tasks).
     case center_data_nd env X1 y1 (mt_fit_intercept self) (mt_normalize self) of
       (X, y, X_mean, y_mean, X_std) \<Rightarrow>
     let coef0 = (case mt_coef self of
                    None \<Rightarrow> zeros2 n_tasks n_features
                  | Some c \<Rightarrow> if \<not> mt_warm_start self then zeros2 n_tasks n_features else c);
         l1_reg = mt_alpha self * mt_l1_ratio self * real n_samples;
         l2_reg = mt_alpha self * (1 - mt_l1_ratio self) * real n_samples in
     bind_run (call ''cd_fast.enet_coordinate_descent_multi_task''
                 (Inr (enet_coordinate_descent_multi_task env coef0 l1_reg l2_reg X y
                         (mt_max_iter self) (mt_tol self)))) (\<lambda>(coef, dual_gap, eps_cd).
     let fitted = mt_set_intercept env
                    (self\<lparr> mt_coef := Some coef, mt_dual_gap := Some dual_gap,
                           mt_eps := Some eps_cd \<rparr>) X_mean y_mean X_std;
         squeezed = (if squeeze_me
                     then fitted\<lparr> mt_coef := map_option np_squeeze (mt_coef fitted) \<rparr>
                     else fitted) in
     bind_run (if dual_gap > eps_cd then warn mt_not_converged_warning else ret ()) (\<lambda>_.
     ret squeezed)))))"

text \<open>
  Environments for concrete runs. The coordinate-descent kernels make no progress:
  they return the coefficients they were given, the dual gap \<open>l1_reg\<close> and the
  threshold \<open>0\<close>, so a solve with \<open>l1_reg > 0\<close> ends above its threshold. The
  preprocessing functions return their arguments, and fresh memory holds zeros.
\<close>

definition demo_cd_env :: cd_env where
  "demo_cd_env =
     \<lparr> atleast2d_or_csc = (\<lambda>X. Inr X),
       center_data = (\<lambda>X y fit_intercept normalize_X. (X, y)),
       pre_fit = (\<lambda>X y Xy pc normalize_X fit_intercept.
                    Inr (X, y, replicate (ncols (mat_of X)) 0, 0,
                         replicate (ncols (mat_of X)) 1, pc, Xy)),
       enet_coordinate_descent = (\<lambda>w l1_reg l2_reg X y max_iter tol positive. (w, l1_reg, 0)),
       sparse_enet_coordinate_descent =
         (\<lambda>w l1_reg l2_reg X y scaling max_iter tol positive. (w, l1_reg, 0)),
       set_intercept = (\<lambda>m X_mean y_mean X_std. m),
       uninit = 0 \<rparr>"

definition demo_mt_env :: mt_env where
  "demo_mt_env =
     \<lparr> array2d = (\<lambda>X. Inr X),
       center_data_nd = (\<lambda>X y fit_intercept normalize_X.
                           (X, y, replicate (ncols (mat_of X)) 0, replicate (ncols y) 0,
                            replicate (ncols (mat_of X)) 1)),
       enet_coordinate_descent_multi_task = (\<lambda>w l1_reg l2_reg X y max_iter tol. (w, l1_reg, 0)),
       mt_set_intercept = (\<lambda>m X_mean y_mean X_std. m) \<rparr>"

section \<open>linear\_model/ridge.py: \_RidgeGCV\<close>








text \<open>
  The two results of \<open>_errors\<close>, \<open>_values\<close>, \<open>_errors_svd\<close> or \<open>_values_svd\<close>
  for one candidate. Entries are reals, and numpy divides by zero without raising:
  \<open>Col out c\<close> stands for results computed without a division by zero;
  \<open>NaNCol\<close> for a first result whose entries are all NaN; \<open>NonFiniteCol\<close> for
  results holding infinities or NaN that are not followed further.
\<close>

datatype gcv_col = Col ndarray ndarray | NaNCol | NonFiniteCol













fun nan_mean :: "gcv_col \<Rightarrow> bool" where
  "nan_mean (Col out c) = (elems out = [])"
| "nan_mean NaNCol = True"
| "nan_mean NonFiniteCol = True"











section \<open>linear\_model/stochastic\_gradient.py: the SGD classifier\<close>




text \<open>
  The parameters and the fitted attributes of a classifier. \<open>class_weight\<close> is
  \<open>None\<close>, the string \<open>'auto'\<close> or a dictionary from labels to weights; labels
  are integers.
\<close>

datatype class_weight = AutoWeight | DictWeight "(int \<times> real) list"





























section \<open>Properties of \_translate\_train\_sizes\<close>

lemma translated_sizes_length:
  "translated_sizes ts n = Inr sizes \<Longrightarrow> length sizes = n_ticks_of ts"
  by (cases ts) (auto split: sum.splits if_splits)

lemma np_unique_distinct: "distinct (np_unique xs)"
  by (simp add: np_unique_def)

lemma np_unique_sorted: "sorted (np_unique xs)"
  by (simp add: np_unique_def)

lemma np_unique_set: "set (np_unique xs) = set xs"
  by (simp add: np_unique_def)

lemma np_unique_length_le: "length (np_unique xs) \<le> length xs"
  by (simp add: np_unique_def length_remdups_leq)

lemma np_unique_length_less:
  assumes "\<not> distinct xs"
  shows "length (np_unique xs) < length xs"
proof -
  have "length (remdups xs) \<noteq> length xs"
    using assms by (simp add: length_remdups_eq)
  moreover have "length (remdups xs) \<le> length xs"
    by (rule length_remdups_leq)
  ultimately have "length (remdups xs) < length xs"
    by linarith
  then show ?thesis by (simp add: np_unique_def)
qed

lemma np_unique_length_eq:
  "distinct xs \<Longrightarrow> length (np_unique xs) = length xs"
  by (simp add: np_unique_def distinct_remdups_id)

text \<open>
  Claim C5. The two documented examples evaluate to \<open>[5, 10]\<close> without a warning.
  In general, whenever the function returns, the returned sizes are the sorted
  distinct translated sizes; and when the translated sizes contain a duplicate, the
  duplicate-removal warning is emitted and the result is strictly shorter than the
  input.
\<close>

theorem translate_train_sizes_dedup:
  "translate_train_sizes (FloatSizes [1/2, 1]) 10 = Inr ([5, 10], [])
   \<and> translate_train_sizes (IntSizes [5, 10]) 10 = Inr ([5, 10], [])
   \<and> (translated_sizes ts n = Inr sizes \<longrightarrow>
        (\<exists>out ws. translate_train_sizes ts n = Inr (out, ws)
           \<and> distinct out \<and> sorted out \<and> set out = set sizes
           \<and> (\<not> distinct sizes \<longrightarrow>
                 ws = [Warn dup_warning] \<and> length out < n_ticks_of ts)
           \<and> (distinct sizes \<longrightarrow> ws = [] \<and> length out = n_ticks_of ts)))"
proof (intro conjI impI)
  show "translate_train_sizes (FloatSizes [1/2, 1]) 10 = Inr ([5, 10], [])"
    by (simp add: translate_train_sizes_def np_unique_def np_clip_def astype_int_def)
  show "translate_train_sizes (IntSizes [5, 10]) 10 = Inr ([5, 10], [])"
    by (simp add: translate_train_sizes_def np_unique_def)
next
  assume tr: "translated_sizes ts n = Inr sizes"
  have len: "length sizes = n_ticks_of ts"
    using tr by (rule translated_sizes_length)
  show "\<exists>out ws. translate_train_sizes ts n = Inr (out, ws)
           \<and> distinct out \<and> sorted out \<and> set out = set sizes
           \<and> (\<not> distinct sizes \<longrightarrow>
                 ws = [Warn dup_warning] \<and> length out < n_ticks_of ts)
           \<and> (distinct sizes \<longrightarrow> ws = [] \<and> length out = n_ticks_of ts)"
  proof (cases "distinct sizes")
    case True
    then have "length (np_unique sizes) = n_ticks_of ts"
      using len by (simp add: np_unique_length_eq)
    then show ?thesis
      using True tr
      by (simp add: translate_train_sizes_def Let_def np_unique_distinct
          np_unique_sorted np_unique_set)
  next
    case False
    then have "length (np_unique sizes) < n_ticks_of ts"
      using len np_unique_length_less [of sizes] by simp
    then show ?thesis
      using False tr
      by (simp add: translate_train_sizes_def Let_def np_unique_distinct
          np_unique_sorted np_unique_set)
  qed
qed

theorem translate_train_sizes_dedup_witness:
  "translated_sizes (FloatSizes [1/2, 11/20, 1]) 10 = Inr [5, 5, 10]
   \<and> \<not> distinct [5, 5, 10 :: int]
   \<and> translate_train_sizes (FloatSizes [1/2, 11/20, 1]) 10
       = Inr ([5, 10], [Warn dup_warning])
   \<and> length [5, 10 :: int] < n_ticks_of (FloatSizes [1/2, 11/20, 1])"
proof -
  have tr: "translated_sizes (FloatSizes [1/2, 11/20, 1]) 10 = Inr [5, 5, 10]"
    by (simp add: np_clip_def astype_int_def)
  have nd: "\<not> distinct [5, 5, 10 :: int]" by simp
  from translate_train_sizes_dedup [of "FloatSizes [1/2, 11/20, 1]" 10 "[5, 5, 10]"] tr nd
  obtain out ws where
    r: "translate_train_sizes (FloatSizes [1/2, 11/20, 1]) 10 = Inr (out, ws)"
    and w: "ws = [Warn dup_warning]"
    and l: "length out < n_ticks_of (FloatSizes [1/2, 11/20, 1])"
    by blast
  have o: "out = [5, 10]"
    using r tr by (simp add: translate_train_sizes_def np_unique_def)
  show ?thesis using tr nd r w l o by simp
qed

section \<open>Properties of learning\_curve\<close>

lemma bind_run_raise: "bind_run (Inl e, tr) f = (Inl e, tr)"
  by (simp add: bind_run_def)

lemma bind_run_call_trace:
  "\<exists>r tr. bind_run (call name x) f = (r, Call name # tr)"
  by (cases x; cases "f (projr x)") (auto simp: bind_run_def call_def)

text \<open>
  When the guard of lines 97--99 does not fire, the first thing the function does is
  validate the arrays: the trace of every such run starts with that call.
\<close>

lemma learning_curve_validates_first:
  assumes "\<not> (exploit \<and> \<not> has_partial_fit env estimator)"
  shows "\<exists>r tr. learning_curve env estimator data train_sizes cv scoring exploit
           = (r, Call ''check_arrays'' # tr)"
proof -
  have g: "(exploit \<and> \<not> has_partial_fit env estimator) = False"
    using assms by simp
  show ?thesis
    unfolding learning_curve_def g if_False by (rule bind_run_call_trace)
qed

text \<open>
  Claim C8. When incremental learning is requested for an estimator without
  \<open>partial_fit\<close>, \<open>learning_curve\<close> raises ValueError and the trace of the run is
  empty: no array validation, fold generation, fit or score has been called.
\<close>

theorem learning_curve_requires_partial_fit:
  assumes "\<not> has_partial_fit env estimator"
  shows "learning_curve env estimator data train_sizes cv scoring True = (Inl ValueError, [])"
  using assms by (simp add: learning_curve_def raise_def)

theorem learning_curve_requires_partial_fit_witness:
  "\<not> has_partial_fit demo_env False
   \<and> learning_curve demo_env False 3 (FloatSizes [1/2, 1])
        [([0, 1], [2]), ([1, 2], [0])] () True = (Inl ValueError, [])"
proof -
  have h: "\<not> has_partial_fit demo_env False"
    by (simp add: demo_env_def)
  show ?thesis
    using h learning_curve_requires_partial_fit [OF h] by simp
qed

section \<open>Properties of ridge\_regression\<close>

lemma bind_run_Inr:
  assumes "bind_run m f = (Inr b, tr)"
  obtains a t1 t2 where "m = (Inr a, t1)" "f a = (Inr b, t2)" "tr = t1 @ t2"
  using assms by (auto simp: bind_run_def split: prod.splits sum.splits)

lemma shape_mk2 [simp]: "shape (mk2 n m f) = [n, m]" by (simp add: mk2_def)
lemma nrows_mk2 [simp]: "nrows (mk2 n m f) = n" by (simp add: nrows_def)
lemma ncols_mk2 [simp]: "ncols (mk2 n m f) = m" by (simp add: ncols_def)
lemma shape_transpose2 [simp]: "shape (transpose2 a) = [ncols a, nrows a]" by (simp add: transpose2_def)
lemma shape_dot2 [simp]: "shape (dot2 a b) = [nrows a, ncols b]" by (simp add: dot2_def)
lemma shape_stack_rows [simp]: "shape (stack_rows n m rs) = [n, m]" by (simp add: stack_rows_def)
lemma shape2_nrows: "shape a = [n, m] \<Longrightarrow> nrows a = n" by (simp add: nrows_def)
lemma shape2_ncols: "shape a = [n, m] \<Longrightarrow> ncols a = m" by (simp add: ncols_def)
lemma unpack2_Inr: "unpack2 s = Inr (n, m) \<longleftrightarrow> s = [n, m]"
  by (auto simp: unpack2_def split: list.splits)

lemma solve_sparse_cg_shape:
  assumes "solve_sparse_cg K X y alpha max_iter tol = (Inr c, tr)"
    and "shape (mat_of X) = [n, p]" and "shape y = [n', t]"
  shows "shape c = [t, p]"
  using assms unfolding solve_sparse_cg_def
  by (auto elim!: bind_run_Inr simp: lift_def ret_def unpack2_Inr shape2_ncols)

lemma solve_lsqr_shape:
  assumes "solve_lsqr K X y alpha max_iter tol = (Inr c, tr)"
    and "shape (mat_of X) = [n, p]" and "shape y = [n', t]"
  shows "shape c = [t, p]"
  using assms unfolding solve_lsqr_def
  by (auto elim!: bind_run_Inr simp: lift_def ret_def unpack2_Inr shape2_ncols Let_def)

lemma linalg_solve_shape:
  "linalg_solve K A b = (Inr c, tr) \<Longrightarrow> shape c = shape b"
  by (auto simp: linalg_solve_def call_def split: sum.splits)

lemma solve_dense_cholesky_shape:
  assumes "solve_dense_cholesky K X y alpha = (Inr c, tr)"
    and "shape (mat_of X) = [n, p]" and "shape y = [n', t]"
  shows "shape c = [t, p]"
  using assms unfolding solve_dense_cholesky_def
  by (auto elim!: bind_run_Inr simp: lift_def ret_def unpack2_Inr shape2_ncols shape2_nrows Let_def
      dest!: linalg_solve_shape split: if_splits)


lemma shape_scale_rows [simp]: "shape (scale_rows a w) = [nrows a, ncols a]" by (simp add: scale_rows_def)
lemma shape_scale_cols [simp]: "shape (scale_cols a w) = [nrows a, ncols a]" by (simp add: scale_cols_def)
lemma shape_scale_outer [simp]: "shape (scale_outer a w) = [nrows a, ncols a]" by (simp add: scale_outer_def)

lemma solve_dense_cholesky_kernel_shape:
  assumes "solve_dense_cholesky_kernel K Kmat y alpha sw = (Inr c, tr)"
    and "shape Kmat = [n, n]" and "shape y = [n, t]"
  shows "shape c = [n, t]"
  using assms unfolding solve_dense_cholesky_kernel_def
  by (auto elim!: bind_run_Inr simp: lift_def ret_def shape2_ncols shape2_nrows Let_def
      dest!: linalg_solve_shape split: if_splits option.splits)

lemma linalg_svd_shape:
  assumes "linalg_svd K X = (Inr (U, s, Vt), tr)" and "shape (mat_of X) = [n, p]"
  shows "shape U = [n, min n p] \<and> shape s = [min n p] \<and> shape Vt = [min n p, p]"
  using assms
  by (auto simp: linalg_svd_def call_def Let_def shape2_ncols shape2_nrows split: sum.splits)

lemma mul_broadcast_shape:
  assumes "mul_broadcast a b = Inr c" and "ncols a = ncols b \<or> ncols a = 1"
  shows "shape c = [nrows a, ncols b]"
  using assms by (auto simp: mul_broadcast_def split: if_splits)

lemma solve_svd_shape:
  assumes "solve_svd K X y alpha = (Inr c, tr)"
    and "shape (mat_of X) = [n, p]" and "shape y = [n', t]"
    and "length alpha = t \<or> length alpha = 1"
  shows "shape c = [t, p]"
proof -
  from assms(1) obtain U s Vt t1 t2 d_UT_y where
    svd: "linalg_svd K X = (Inr (U, s, Vt), t1)"
    and mb: "mul_broadcast (mk2 (nrows s) (length alpha)
               (\<lambda>i j. if at1 s i > 1 / 10 ^ 15
                       then at1 s i / ((at1 s i)\<^sup>2 + vec_at alpha j) else 0))
               (dot2 (transpose2 U) y) = Inr d_UT_y"
    and c: "c = transpose2 (dot2 (transpose2 Vt) d_UT_y)"
    unfolding solve_svd_def
    by (auto elim!: bind_run_Inr simp: lift_def ret_def Let_def)
  have shp: "shape Vt = [min n p, p]"
    using linalg_svd_shape [OF svd assms(2)] by simp
  have "shape d_UT_y = [nrows s, t]"
    using mul_broadcast_shape [OF mb] assms(3,4) by (auto simp: shape2_ncols)
  then show ?thesis
    using c shp by (simp add: shape2_ncols shape2_nrows)
qed


lemma try_linalg_Some:
  "try_linalg m = (Inr (Some a), tr) \<longleftrightarrow> m = (Inr a, tr)"
  by (auto simp: try_linalg_def split: prod.splits sum.splits if_splits)

lemma nrows_transpose2 [simp]: "nrows (transpose2 a) = ncols a" by (simp add: transpose2_def)
lemma ncols_transpose2 [simp]: "ncols (transpose2 a) = nrows a" by (simp add: transpose2_def)
lemma nrows_dot2 [simp]: "nrows (dot2 a b) = nrows a" by (simp add: dot2_def)
lemma ncols_dot2 [simp]: "ncols (dot2 a b) = ncols b" by (simp add: dot2_def)

lemma solve_stage_shape:
  assumes st: "solve_stage K X y alpha sw solver n p has_sw max_iter tol = (Inr (s', Some c), tr)"
    and X: "shape (mat_of X) = [n, p]" and y: "shape y = [n, t]"
  shows "shape c = [t, p]"
proof -
  have kshape: "shape (dot2 (mat_of X) (transpose2 (mat_of X))) = [n, n]"
    using X by (simp add: shape2_nrows)
  consider (cg) "solver = ''sparse_cg''" | (lsqr) "solver = ''lsqr''"
    | (kern) "solver = ''dense_cholesky''" "p > n \<or> has_sw"
    | (prim) "solver = ''dense_cholesky''" "\<not> (p > n \<or> has_sw)"
    | (other) "solver \<noteq> ''sparse_cg''" "solver \<noteq> ''lsqr''" "solver \<noteq> ''dense_cholesky''"
    by blast
  then show ?thesis
  proof cases
    case cg
    then show ?thesis
      using st solve_sparse_cg_shape [OF _ X y]
      by (auto simp: solve_stage_def ret_def elim!: bind_run_Inr)
  next
    case lsqr
    then show ?thesis
      using st solve_lsqr_shape [OF _ X y]
      by (auto simp: solve_stage_def ret_def elim!: bind_run_Inr)
  next
    case kern
    then obtain d t1 where
      k: "solve_dense_cholesky_kernel K (dot2 (mat_of X) (transpose2 (mat_of X))) y alpha sw
            = (Inr d, t1)"
      and c: "c = transpose2 (dot2 (transpose2 (mat_of X)) d)"
      using st
      by (auto simp: solve_stage_def ret_def raise_def Let_def try_linalg_Some
          elim!: bind_run_Inr split: option.splits)
    have "shape d = [n, t]"
      using solve_dense_cholesky_kernel_shape [OF k kshape y] .
    then show ?thesis
      using c X by (simp add: shape2_ncols)
  next
    case prim
    then obtain t1 where "solve_dense_cholesky K X y alpha = (Inr c, t1)"
      using st
      by (auto simp: solve_stage_def ret_def try_linalg_Some elim!: bind_run_Inr
          split: if_splits)
    then show ?thesis
      by (rule solve_dense_cholesky_shape [OF _ X y])
  next
    case other
    then show ?thesis
      using st by (simp add: solve_stage_def ret_def)
  qed
qed


lemma ridge_solve_shape:
  assumes rs: "ridge_solve K X y alpha0 sw solver0 max_iter tol n p t ravel = (Inr c, tr)"
    and X: "shape (mat_of X) = [n, p]" and y: "shape y = [n, t]"
  shows "\<exists>c'. shape c' = [t, p] \<and> c = (if ravel then np_ravel c' else c')"
proof -
  define alpha where
    "alpha = (if length alpha0 = 1 \<and> t > 1 then replicate t (hd alpha0) else alpha0)"
  have len: "\<not> (length alpha0 \<noteq> 1 \<and> length alpha0 \<noteq> t)"
    using rs
    by (auto simp: ridge_solve_def Let_def raise_def elim!: bind_run_Inr split: if_splits)
  then have al: "length alpha = t \<or> length alpha = 1"
    by (auto simp: alpha_def)
  have rs': "bind_run (resolve_solver K X solver0) (\<lambda>solver1.
      bind_run (if weight_given sw \<and> solver1 \<noteq> ''dense_cholesky''
                then bind_run (warn sw_warning) (\<lambda>_. ret ''dense_cholesky'')
                else ret solver1) (\<lambda>solver2.
      bind_run (solve_stage K X y alpha sw solver2 n p (weight_given sw)
                  max_iter tol) (\<lambda>(solver3, coef0).
      bind_run (if solver3 = ''svd''
                then bind_run (solve_svd K X y alpha) (\<lambda>c. ret (Some c))
                else ret coef0) (\<lambda>coef.
      case coef of
        None \<Rightarrow> raise UnboundLocalError
      | Some c \<Rightarrow> ret (if ravel then np_ravel c else c))))) = (Inr c, tr)"
    using rs len unfolding ridge_solve_def Let_def alpha_def [symmetric]
    by (simp only: if_False)
  from rs' obtain solver2 solver3 coef0 coef t1 t2 t3 where
    st: "solve_stage K X y alpha sw solver2 n p (weight_given sw) max_iter tol
           = (Inr (solver3, coef0), t1)"
    and sv: "(if solver3 = ''svd''
              then bind_run (solve_svd K X y alpha) (\<lambda>c. ret (Some c))
              else ret coef0) = (Inr coef, t2)"
    and fin: "(case coef of None \<Rightarrow> raise UnboundLocalError
               | Some c \<Rightarrow> ret (if ravel then np_ravel c else c)) = (Inr c, t3)"
    by (auto elim!: bind_run_Inr)
  from fin obtain c' where coef: "coef = Some c'"
    and c: "c = (if ravel then np_ravel c' else c')"
    by (auto simp: raise_def ret_def split: option.splits)
  have "shape c' = [t, p]"
  proof (cases "solver3 = ''svd''")
    case True
    then obtain t4 where "solve_svd K X y alpha = (Inr c', t4)"
      using sv coef by (auto simp: ret_def elim!: bind_run_Inr)
    then show ?thesis
      using solve_svd_shape X y al by blast
  next
    case False
    then have "coef0 = Some c'"
      using sv coef by (simp add: ret_def)
    then show ?thesis
      using st solve_stage_shape X y by blast
  qed
  then show ?thesis using c by blast
qed


lemmas run_defs = bind_run_def ret_def raise_def warn_def call_def lift_def
lemmas array_defs = mk1_def mk2_def nrows_def ncols_def at1_def at2_def transpose2_def dot2_def
  column_def row_def add_diag_def reshape_column_def np_ravel_def stack_rows_def
  mul_broadcast_def arr1_def arr2_def ndim_def unpack2_def py_nth_def vec_at_def rows_of_def
lemmas ridge_defs = ridge_regression_def ridge_solve_def solve_stage_def resolve_solver_def
  try_linalg_def solve_dense_cholesky_def solve_dense_cholesky_kernel_def solve_svd_def
  solve_sparse_cg_def solve_lsqr_def linalg_solve_def linalg_svd_def scalar_kernels_def
  scale_rows_def scale_cols_def scale_outer_def sqrt_weights_def matvec_def rmatvec_def
  create_mv_def


text \<open>
  The primal branch recovers from a singular Cholesky solve: when
  \<open>_solve_dense_cholesky\<close> raises LinAlgError, the coefficients are those of
  \<open>_solve_svd\<close>.
\<close>

lemma ridge_solve_primal_fallback:
  assumes res: "resolve_solver K X solver0 = (Inr ''dense_cholesky'', [])"
    and len: "length alpha0 = t"
    and prim: "\<not> (p > n \<or> weight_given sw)"
    and fail: "solve_dense_cholesky K X y alpha0 = (Inl LinAlgError, tr)"
    and svd: "solve_svd K X y alpha0 = (Inr c, tr')"
  shows "ridge_solve K X y alpha0 sw solver0 max_iter tol n p t ravel
           = (Inr (if ravel then np_ravel c else c), tr @ tr')"
proof -
  have al: "(if length alpha0 = 1 \<and> t > 1 then replicate t (hd alpha0) else alpha0) = alpha0"
    using len by auto
  have chk: "(length alpha0 \<noteq> 1 \<and> length alpha0 \<noteq> t) = False"
    using len by simp
  show ?thesis
    unfolding ridge_solve_def Let_def al chk
    using res prim fail svd
    by (simp add: solve_stage_def try_linalg_def run_defs)
qed

text \<open>
  The kernel branch does not: after LinAlgError is caught, line 294 reads the unbound
  \<open>dual_coef\<close>, and the call ends with UnboundLocalError before the SVD is tried.
\<close>

lemma ridge_solve_kernel_no_fallback:
  assumes res: "resolve_solver K X solver0 = (Inr ''dense_cholesky'', [])"
    and len: "length alpha0 = t"
    and kern: "p > n \<or> weight_given sw"
    and fail: "solve_dense_cholesky_kernel K (dot2 (mat_of X) (transpose2 (mat_of X)))
                 y alpha0 sw = (Inl LinAlgError, tr)"
  shows "ridge_solve K X y alpha0 sw solver0 max_iter tol n p t ravel
           = (Inl UnboundLocalError, tr)"
proof -
  have al: "(if length alpha0 = 1 \<and> t > 1 then replicate t (hd alpha0) else alpha0) = alpha0"
    using len by auto
  have chk: "(length alpha0 \<noteq> 1 \<and> length alpha0 \<noteq> t) = False"
    using len by simp
  show ?thesis
    unfolding ridge_solve_def Let_def al chk
    using res kern fail
    by (simp add: solve_stage_def try_linalg_def run_defs)
qed

lemma unpack2_cases: "unpack2 s = Inl ValueError \<or> (\<exists>n m. s = [n, m] \<and> unpack2 s = Inr (n, m))"
  by (auto simp: unpack2_def split: list.splits)

lemma ridge_regression_ndim:
  assumes "ndim y > 2"
  shows "ridge_regression K X y alpha sw solver max_iter tol = (Inl ValueError, [])"
  using assms unpack2_cases [of "shape (mat_of X)"]
  by (auto simp: ridge_regression_def run_defs)

lemma ridge_regression_mismatch:
  assumes "shape y = [m] \<or> shape y = [m, t]" and "shape (mat_of X) = [n, p]" and "m \<noteq> n"
  shows "ridge_regression K X y alpha sw solver max_iter tol = (Inl ValueError, [])"
  using assms
  by (auto simp: ridge_regression_def run_defs unpack2_def ndim_def reshape_column_def nrows_def)

lemma ridge_regression_returns_shape:
  assumes rr: "ridge_regression K X y alpha sw solver max_iter tol = (Inr c, tr)"
    and X: "shape (mat_of X) = [n, p]"
  shows "(ndim y = 1 \<longrightarrow> shape y = [n] \<and> shape c = [p])
       \<and> (ndim y = 2 \<longrightarrow> (\<exists>t. shape y = [n, t] \<and> shape c = [t, p]))"
proof -
  have nd: "\<not> ndim y > 2"
    using rr ridge_regression_ndim [of y K X alpha sw solver max_iter tol] by auto
  define y' where "y' = (if ndim y = 1 then reshape_column y else y)"
  from rr X nd obtain t where ys: "shape y' = [n, t]"
    and rs: "ridge_solve K X y' alpha sw solver max_iter tol n p t (ndim y = 1) = (Inr c, tr)"
    unfolding ridge_regression_def Let_def y'_def [symmetric]
    by (auto simp: run_defs unpack2_def split: list.splits if_splits)
  from ridge_solve_shape [OF rs X ys] obtain c' where
    c': "shape c' = [t, p]" and c: "c = (if ndim y = 1 then np_ravel c' else c')"
    by blast
  show ?thesis
  proof (rule conjI; rule impI)
    assume one: "ndim y = 1"
    then obtain m where m: "shape y = [m]"
      by (cases "shape y") (auto simp: ndim_def)
    then have "shape y' = [m, 1]"
      using one by (simp add: y'_def reshape_column_def nrows_def)
    then have "m = n" "t = 1" using ys by simp_all
    then show "shape y = [n] \<and> shape c = [p]"
      using m c c' one by (simp add: np_ravel_def)
  next
    assume two: "ndim y = 2"
    then have "y' = y" by (simp add: y'_def)
    then show "\<exists>t. shape y = [n, t] \<and> shape c = [t, p]"
      using ys c c' two by auto
  qed
qed


text \<open>
  A solver name outside the five documented ones is not rejected: without sample
  weights no branch assigns \<open>coef\<close>, and the function ends with UnboundLocalError
  at line 307 or 309.
\<close>

lemma ridge_solve_unknown_solver:
  assumes "solver \<notin> {''auto'', ''svd'', ''dense_cholesky'', ''lsqr'', ''sparse_cg''}"
    and "\<not> weight_given sw"
    and "length alpha0 = 1 \<or> length alpha0 = t"
  shows "ridge_solve K X y alpha0 sw solver max_iter tol n p t ravel
           = (Inl UnboundLocalError, [])"
proof -
  have chk: "(length alpha0 \<noteq> 1 \<and> length alpha0 \<noteq> t) = False"
    using assms(3) by auto
  have rs: "resolve_solver K X solver = (Inr solver, [])"
    using assms(1) by (simp add: resolve_solver_def ret_def)
  show ?thesis
    unfolding ridge_solve_def Let_def chk rs
    using assms(1,2) by (simp add: solve_stage_def run_defs)
qed

text \<open>
  Claim C1, evaluated on the code. With one sample and two features
  (\<open>X = [[0, 0]]\<close>, \<open>y = [4]\<close>, \<open>alpha = 0\<close>) the kernel branch is taken, the
  kernel matrix \<open>X X\<^sup>T + alpha I = [[0]]\<close> is singular, and the call ends with
  UnboundLocalError after the one failed solve: the SVD is never called. With
  \<open>X = [[0]]\<close> the primal branch is taken and the same singularity is recovered by
  the SVD solve.
\<close>

theorem ridge_regression_singular_kernel_branch:
  "ridge_regression scalar_kernels (Dense (arr2 [[0, 0]])) (arr1 [4]) [0] (WScalar 1)
      ''dense_cholesky'' None (1 / 1000)
     = (Inl UnboundLocalError, [Call ''linalg.solve''])
   \<and> ridge_regression scalar_kernels (Dense (arr2 [[0]])) (arr1 [4]) [0] (WScalar 1)
      ''dense_cholesky'' None (1 / 1000)
     = (Inr \<lparr>shape = [1], elems = [0]\<rparr>, [Call ''linalg.solve'', Call ''linalg.svd''])"
  by (simp add: ridge_defs array_defs run_defs Let_def)

text \<open>
  Claim C2, evaluated on the code. For the unknown solver name \<open>cholesky\<close> no
  ValueError is raised: without sample weights the call ends with UnboundLocalError
  when \<open>coef\<close> is read, and with a sample-weight array the name is silently replaced
  by \<open>dense_cholesky\<close>, a solve is performed and coefficients are returned.
\<close>

theorem ridge_regression_unknown_solver:
  "ridge_regression scalar_kernels (Dense (arr2 [[2]])) (arr1 [4]) [1] (WScalar 1)
      ''cholesky'' None (1 / 1000)
     = (Inl UnboundLocalError, [])
   \<and> ridge_regression scalar_kernels (Dense (arr2 [[2]])) (arr1 [4]) [0] (WArray [1])
      ''cholesky'' None (1 / 1000)
     = (Inr \<lparr>shape = [1], elems = [2]\<rparr>, [Warn sw_warning, Call ''linalg.solve''])"
  by (simp add: ridge_defs array_defs run_defs Let_def)

text \<open>
  Claim C10. A target with more than two dimensions, or with a sample count other
  than that of \<open>X\<close>, is rejected with ValueError before any warning or solver call
  (the trace is empty). Whenever \<open>ridge_regression\<close> returns, a one-dimensional
  target of length \<open>n_samples\<close> gives coefficients of shape \<open>(n_features,)\<close> and a
  two-dimensional target of shape \<open>(n_samples, n_targets)\<close> gives coefficients of
  shape \<open>(n_targets, n_features)\<close>.
\<close>

theorem ridge_regression_shape:
  "(ndim y > 2 \<longrightarrow>
      ridge_regression K X y alpha sw solver max_iter tol = (Inl ValueError, []))
   \<and> ((shape y = [m] \<or> shape y = [m, t]) \<and> shape (mat_of X) = [n, p] \<and> m \<noteq> n \<longrightarrow>
      ridge_regression K X y alpha sw solver max_iter tol = (Inl ValueError, []))
   \<and> (ridge_regression K X y alpha sw solver max_iter tol = (Inr c, tr)
        \<and> shape (mat_of X) = [n, p] \<longrightarrow>
      (ndim y = 1 \<longrightarrow> shape y = [n] \<and> shape c = [p])
      \<and> (ndim y = 2 \<longrightarrow> (\<exists>t. shape y = [n, t] \<and> shape c = [t, p])))"
  using ridge_regression_ndim [of y K X alpha sw solver max_iter tol]
    ridge_regression_mismatch [of y m t X n p K alpha sw solver max_iter tol]
    ridge_regression_returns_shape [of K X y alpha sw solver max_iter tol c tr n p]
  by blast

theorem ridge_regression_shape_witness:
  "ndim \<lparr>shape = [1, 1, 1], elems = [4]\<rparr> > 2
   \<and> ridge_regression scalar_kernels (Dense (arr2 [[2]])) \<lparr>shape = [1, 1, 1], elems = [4]\<rparr>
        [0] (WScalar 1) ''auto'' None (1 / 1000) = (Inl ValueError, [])
   \<and> shape (arr1 [4, 5]) = [2] \<and> shape (arr2 [[2]]) = [1, 1] \<and> (2::nat) \<noteq> 1
   \<and> ridge_regression scalar_kernels (Dense (arr2 [[2]])) (arr1 [4, 5])
        [0] (WScalar 1) ''auto'' None (1 / 1000) = (Inl ValueError, [])
   \<and> ridge_regression scalar_kernels (Dense (arr2 [[2]])) (arr1 [4])
        [0] (WScalar 1) ''auto'' None (1 / 1000)
        = (Inr \<lparr>shape = [1], elems = [2]\<rparr>, [Call ''linalg.solve''])
   \<and> ndim (arr1 [4]) = 1 \<and> shape (arr1 [4]) = [1]
   \<and> shape \<lparr>shape = [1], elems = [2::real]\<rparr> = [1]
   \<and> ridge_regression scalar_kernels (Dense (arr2 [[2]])) (arr2 [[4, 6]])
        [0] (WScalar 1) ''svd'' None (1 / 1000)
        = (Inr \<lparr>shape = [2, 1], elems = [2, 3]\<rparr>, [Call ''linalg.svd''])
   \<and> ndim (arr2 [[4, 6]]) = 2 \<and> shape (arr2 [[4, 6]]) = [1, 2]
   \<and> shape \<lparr>shape = [2, 1], elems = [2, 3::real]\<rparr> = [2, 1]"
proof -
  have X: "shape (mat_of (Dense (arr2 [[2]]))) = [1, 1]"
    by (simp add: arr2_def)
  have r1: "ridge_regression scalar_kernels (Dense (arr2 [[2]])) (arr1 [4])
        [0] (WScalar 1) ''auto'' None (1 / 1000)
        = (Inr \<lparr>shape = [1], elems = [2]\<rparr>, [Call ''linalg.solve''])"
    by (simp add: ridge_defs array_defs run_defs Let_def)
  have r2: "ridge_regression scalar_kernels (Dense (arr2 [[2]])) (arr2 [[4, 6]])
        [0] (WScalar 1) ''svd'' None (1 / 1000)
        = (Inr \<lparr>shape = [2, 1], elems = [2, 3]\<rparr>, [Call ''linalg.svd''])"
    by (simp add: ridge_defs array_defs run_defs Let_def)
  have n3: "ndim \<lparr>shape = [1, 1, 1], elems = [4]\<rparr> > 2"
    by (simp add: ndim_def)
  have n1: "ndim (arr1 [4]) = 1" and n2: "ndim (arr2 [[4, 6]]) = 2"
    by (simp_all add: ndim_def arr1_def arr2_def)
  have s1: "shape (arr1 [4, 5]) = [2]"
    by (simp add: arr1_def)
  note a = ridge_regression_shape [of "\<lparr>shape = [1, 1, 1], elems = [4]\<rparr>" scalar_kernels
      "Dense (arr2 [[2]])" "[0]" "WScalar 1" "''auto''" None "1 / 1000"]
  note b = ridge_regression_shape [of "arr1 [4, 5]" scalar_kernels
      "Dense (arr2 [[2]])" "[0]" "WScalar 1" "''auto''" None "1 / 1000" 2 _ 1 1]
  note c = ridge_regression_shape [of "arr1 [4]" scalar_kernels
      "Dense (arr2 [[2]])" "[0]" "WScalar 1" "''auto''" None "1 / 1000" _ _ 1 1
      "\<lparr>shape = [1], elems = [2]\<rparr>" "[Call ''linalg.solve'']"]
  note d = ridge_regression_shape [of "arr2 [[4, 6]]" scalar_kernels
      "Dense (arr2 [[2]])" "[0]" "WScalar 1" "''svd''" None "1 / 1000" _ _ 1 1
      "\<lparr>shape = [2, 1], elems = [2, 3]\<rparr>" "[Call ''linalg.svd'']"]
  have e1: "ridge_regression scalar_kernels (Dense (arr2 [[2]]))
        \<lparr>shape = [1, 1, 1], elems = [4]\<rparr> [0] (WScalar 1) ''auto'' None (1 / 1000)
        = (Inl ValueError, [])"
    using a n3 by blast
  have e2: "ridge_regression scalar_kernels (Dense (arr2 [[2]])) (arr1 [4, 5])
        [0] (WScalar 1) ''auto'' None (1 / 1000) = (Inl ValueError, [])"
    using b s1 X by simp
  have e3: "shape (arr1 [4]) = [1]"
    using c r1 X n1 by simp
  have e4: "shape (arr2 [[4, 6]]) = [1, 2]"
    by (simp add: arr2_def)
  show ?thesis
    using n3 e1 s1 X e2 r1 n1 e3 r2 n2 e4 by simp
qed

section \<open>Properties of \_alpha\_grid\<close>

lemma np_max_Max: "xs \<noteq> [] \<Longrightarrow> np_max xs = Inr (Max (set xs))"
proof (cases xs)
  case Nil
  assume "xs \<noteq> []"
  with Nil show ?thesis by simp
next
  case (Cons x r)
  show ?thesis unfolding Cons by (simp only: np_max.simps Max.set_eq_fold)
qed

lemma ten_powr_log_mult:
  assumes "0 < e"
  shows "10 powr (log 10 e * t) = e powr t"
proof -
  have "e powr t = (10 powr (log 10 e)) powr t"
    using assms by simp
  also have "\<dots> = 10 powr (log 10 e * t)"
    by (rule powr_powr)
  finally show ?thesis by simp
qed

lemma grid_entry:
  assumes "0 < a" "0 < e" "2 \<le> n" "i < n"
  shows "10 powr (log 10 (a * e) + real (n - 1 - i) * ((log 10 a - log 10 (a * e)) / real (n - 1)))
       = a * e powr (real i / real (n - 1))"
proof -
  have n1: "real (n - 1) > 0" using assms by simp
  have le: "log 10 (a * e) = log 10 a + log 10 e"
    using assms by (simp add: log_mult)
  have "real (n - 1 - i) = real (n - 1) - real i" using assms by simp
  then have ex: "log 10 (a * e) + real (n - 1 - i) * ((log 10 a - log 10 (a * e)) / real (n - 1))
       = log 10 a + log 10 e * (real i / real (n - 1))"
    using n1 by (simp add: le field_simps)
  have "10 powr (log 10 a + log 10 e * (real i / real (n - 1)))
       = 10 powr (log 10 a) * 10 powr (log 10 e * (real i / real (n - 1)))"
    by (simp add: powr_add)
  also have "\<dots> = a * e powr (real i / real (n - 1))"
    using assms by (simp only: ten_powr_log_mult) simp
  finally show ?thesis by (simp only: ex)
qed

lemma rev_logspace:
  assumes "0 < a" "0 < e" "2 \<le> n"
  shows "rev (np_logspace (log 10 (a * e)) (log 10 a) n) = log_spaced_grid a e n"
proof (rule nth_equalityI)
  show "length (rev (np_logspace (log 10 (a * e)) (log 10 a) n))
      = length (log_spaced_grid a e n)"
    using assms by (simp add: np_logspace_def np_linspace_def log_spaced_grid_def)
next
  fix i assume "i < length (rev (np_logspace (log 10 (a * e)) (log 10 a) n))"
  then have i: "i < n"
    using assms by (simp add: np_logspace_def np_linspace_def)
  have n1: "n \<noteq> 1" using assms by simp
  have "rev (np_logspace (log 10 (a * e)) (log 10 a) n) ! i
      = np_logspace (log 10 (a * e)) (log 10 a) n ! (n - Suc i)"
    using i n1 by (simp add: rev_nth np_logspace_def np_linspace_def)
  also have "\<dots> = 10 powr (log 10 (a * e)
        + real (n - 1 - i) * ((log 10 a - log 10 (a * e)) / real (n - 1)))"
    using i n1 by (simp add: np_logspace_def np_linspace_def)
  also have "\<dots> = a * e powr (real i / real (n - 1))"
    using assms i by (rule grid_entry)
  finally show "rev (np_logspace (log 10 (a * e)) (log 10 a) n) ! i
      = log_spaced_grid a e n ! i"
    using i by (simp add: log_spaced_grid_def)
qed

lemma grid_of_closed:
  assumes "Xy \<noteq> []" "0 < l1_ratio" "0 < n_samples" "0 < eps"
    and am: "alpha_max = Max (set (map abs Xy)) / (real n_samples * l1_ratio)"
    and pos: "0 < alpha_max"
  shows "grid_of Xy n_samples l1_ratio eps n_alphas
           = Inr (Finite (if n_alphas = 1 then [alpha_max * eps]
                          else log_spaced_grid alpha_max eps n_alphas))"
proof -
  have mx: "np_max (map abs Xy) = Inr (Max (set (map abs Xy)))"
    using assms(1) by (intro np_max_Max) simp
  have d: "real n_samples * l1_ratio \<noteq> 0" using assms by simp
  have pe: "0 < alpha_max * eps" using pos assms(4) by simp
  have g: "grid_of Xy n_samples l1_ratio eps n_alphas =
       (if n_alphas = 0 then Inr (Finite [])
        else Inr (Finite (rev (np_logspace (log 10 (alpha_max * eps))
                                            (log 10 alpha_max) n_alphas))))"
  proof -
    have "grid_of Xy n_samples l1_ratio eps n_alphas =
       (if n_alphas = 0 then Inr (Finite [])
        else if alpha_max \<le> 0 \<or> alpha_max * eps \<le> 0 then Inr NonFinite
        else Inr (Finite (rev (np_logspace (log 10 (alpha_max * eps))
                                            (log 10 alpha_max) n_alphas))))"
      unfolding am grid_of_def mx using d by (simp add: Let_def)
    then show ?thesis using pos pe by simp
  qed
  consider "n_alphas = 0" | "n_alphas = 1" | "2 \<le> n_alphas" by linarith
  then show ?thesis
  proof cases
    case 1
    then show ?thesis unfolding g by (simp add: log_spaced_grid_def)
  next
    case 2
    then show ?thesis
      unfolding g using pe by (simp add: np_logspace_def np_linspace_def)
  next
    case 3
    then show ?thesis
      unfolding g using rev_logspace [OF pos assms(4) 3] by simp
  qed
qed

lemma log_spaced_grid_descending:
  assumes "0 < alpha_max" "0 < eps" "eps \<le> 1"
  shows "sorted_wrt (\<lambda>a b. a \<ge> b) (log_spaced_grid alpha_max eps n_alphas)"
proof -
  have "\<And>i j. i \<le> j \<Longrightarrow>
          alpha_max * eps powr (real j / real (n_alphas - 1))
        \<le> alpha_max * eps powr (real i / real (n_alphas - 1))"
  proof -
    fix i j :: nat assume "i \<le> j"
    then have "real i / real (n_alphas - 1) \<le> real j / real (n_alphas - 1)"
      by (simp add: divide_right_mono)
    then have "eps powr (real j / real (n_alphas - 1)) \<le> eps powr (real i / real (n_alphas - 1))"
      using assms by (intro powr_mono') auto
    then show "alpha_max * eps powr (real j / real (n_alphas - 1))
        \<le> alpha_max * eps powr (real i / real (n_alphas - 1))"
      using assms(1) by simp
  qed
  then show ?thesis
    by (auto simp: log_spaced_grid_def sorted_wrt_iff_nth_less)
qed

lemma log_spaced_grid_ends:
  assumes "2 \<le> n" "0 < e"
  shows "hd (log_spaced_grid a e n) = a" and "last (log_spaced_grid a e n) = a * e"
proof -
  have ne: "log_spaced_grid a e n \<noteq> []" and len: "length (log_spaced_grid a e n) = n"
    using assms by (auto simp: log_spaced_grid_def)
  show "hd (log_spaced_grid a e n) = a"
    using assms ne by (simp add: hd_conv_nth len) (simp add: log_spaced_grid_def)
  have "last (log_spaced_grid a e n) = log_spaced_grid a e n ! (n - 1)"
    using ne len by (simp add: last_conv_nth)
  also have "\<dots> = a * e powr (real (n - 1) / real (n - 1))"
    using assms by (simp add: log_spaced_grid_def)
  also have "\<dots> = a * e"
    using assms by simp
  finally show "last (log_spaced_grid a e n) = a * e" .
qed

text \<open>
  Claim C4, as stated, fails on the code in three ways: with \<open>n_alphas = 1\<close> the
  only value is \<open>alpha_max * eps\<close> (here \<open>alpha_max = 1\<close> and the grid is
  \<open>[1/1000]\<close>); with \<open>eps > 1\<close> the grid ascends (\<open>[1, 10]\<close>); and when
  \<open>X\<^sup>T y\<close> is zero, \<open>alpha_max = 0\<close> and the grid is not finite.
\<close>

theorem alpha_grid_not_always_descending_from_alpha_max:
  "alpha_grid demo_cd_env (Dense (arr2 [[1]])) [1] (Some [1]) 1 False (1 / 1000) 1 False False
      = (Inr (Finite [1 / 1000]), [])
   \<and> alpha_grid demo_cd_env (Dense (arr2 [[1]])) [1] (Some [1]) 1 False 10 2 False False
      = (Inr (Finite [1, 10]), [])
   \<and> alpha_grid demo_cd_env (Dense (arr2 [[0]])) [1] None 1 False (1 / 1000) 3 False False
      = (Inr NonFinite, [Call ''atleast2d_or_csc''])"
  by (simp add: alpha_grid_def grid_inputs_def grid_of_def np_logspace_def np_linspace_def
      run_defs demo_cd_env_def array_defs rmatvec_def upt_rec numeral_2_eq_2 Let_def)

lemma rmatvec_abs_set:
  assumes "length y = nrows A"
  shows "set (map abs (rmatvec A y)) = (\<lambda>j. \<bar>\<Sum>i<nrows A. at2 A i j * y ! i\<bar>) ` {..<ncols A}"
proof -
  have "\<And>j. sum_list (map (\<lambda>i. at2 A i j * vec_at y i) [0..<nrows A])
            = (\<Sum>i<nrows A. at2 A i j * y ! i)"
  proof -
    fix j
    have "sum_list (map (\<lambda>i. at2 A i j * vec_at y i) [0..<nrows A])
        = (\<Sum>i\<in>set [0..<nrows A]. at2 A i j * vec_at y i)"
      by (rule interv_sum_list_conv_sum_set_nat)
    also have "\<dots> = (\<Sum>i<nrows A. at2 A i j * y ! i)"
      using assms by (intro sum.cong) (auto simp: vec_at_def)
    finally show "sum_list (map (\<lambda>i. at2 A i j * vec_at y i) [0..<nrows A])
            = (\<Sum>i<nrows A. at2 A i j * y ! i)" .
  qed
  then show ?thesis
    by (auto simp: rmatvec_def image_iff)
qed

lemma grid_inputs_data:
  assumes X1: "atleast2d_or_csc env X = Inr X1"
    and cen: "(X2, y2) = (if \<not> is_sparse X1
                          then center_data env X1 y fit_intercept normalize_X else (X1, y))"
    and len: "length y2 = nrows (mat_of X2)"
  shows "grid_inputs env X y None fit_intercept normalize_X
           = (Inr (rmatvec (mat_of X2) y2, nrows (mat_of X2)), [Call ''atleast2d_or_csc''])"
proof (cases "is_sparse X1")
  case True
  with cen have "X2 = X1" "y2 = y" by simp_all
  then show ?thesis
    using len True by (simp add: grid_inputs_def X1 bind_run_def call_def ret_def)
next
  case False
  with cen have "center_data env X1 y fit_intercept normalize_X = (X2, y2)" by simp
  then show ?thesis
    using len False by (simp add: grid_inputs_def X1 bind_run_def call_def ret_def)
qed

text \<open>
  Claim C4, amended. Let \<open>l1_ratio > 0\<close>, \<open>n_samples > 0\<close>, \<open>eps > 0\<close> and
  \<open>alpha_max > 0\<close>, where \<open>alpha_max = max\<^sub>j |X\<^sub>j \<sqdot> y| / (n_samples * l1_ratio)\<close>
  is taken on the data after \<open>atleast2d_or_csc\<close> and (unless \<open>X\<close> is sparse)
  \<open>center_data\<close>, with one target per row, or on the precomputed \<open>Xy\<close> with
  \<open>n_samples = len(y)\<close> when \<open>Xy\<close> is given. Then \<open>_alpha_grid\<close> returns exactly
  \<open>n_alphas\<close> values; for \<open>n_alphas \<noteq> 1\<close> they are
  \<open>alpha_max * eps\<^bsup>i/(n_alphas-1)\<^esup>\<close>, so that for \<open>n_alphas \<ge> 2\<close> the first is
  \<open>alpha_max\<close> and the last \<open>alpha_max * eps\<close>; for \<open>n_alphas = 1\<close> the single value
  is \<open>alpha_max * eps\<close>; and the values descend when \<open>eps \<le> 1\<close>.
\<close>

theorem alpha_grid_log_spaced:
  assumes dat: "Xy = None \<Longrightarrow>
        atleast2d_or_csc env X = Inr X1
      \<and> (X2, y2) = (if \<not> is_sparse X1
                     then center_data env X1 y fit_intercept normalize_X else (X1, y))
      \<and> length y2 = nrows (mat_of X2) \<and> 0 < ncols (mat_of X2)
      \<and> n_samples = nrows (mat_of X2)
      \<and> alpha_max = spec_alpha_max (mat_of X2) y2 l1_ratio"
    and pre: "\<And>v. Xy = Some v \<Longrightarrow>
        v \<noteq> [] \<and> n_samples = length y
      \<and> alpha_max = Max (set (map abs v)) / (real (length y) * l1_ratio)"
    and l1: "0 < l1_ratio" and ns: "0 < n_samples" and e0: "0 < eps"
    and pos: "0 < alpha_max"
  shows "\<exists>g. alpha_grid env X y Xy l1_ratio fit_intercept eps n_alphas normalize_X copy_X
              = (Inr (Finite g), case Xy of None \<Rightarrow> [Call ''atleast2d_or_csc''] | Some v \<Rightarrow> [])
     \<and> length g = n_alphas
     \<and> (n_alphas \<noteq> 1 \<longrightarrow> g = log_spaced_grid alpha_max eps n_alphas)
     \<and> (n_alphas = 1 \<longrightarrow> g = [alpha_max * eps])
     \<and> (2 \<le> n_alphas \<longrightarrow> hd g = alpha_max \<and> last g = alpha_max * eps)
     \<and> (eps \<le> 1 \<longrightarrow> sorted_wrt (\<lambda>a b. a \<ge> b) g)"
proof -
  define g where "g = (if n_alphas = 1 then [alpha_max * eps]
                       else log_spaced_grid alpha_max eps n_alphas)"
  define tr where "tr = (case Xy of None \<Rightarrow> [Call ''atleast2d_or_csc''] | Some v \<Rightarrow> [])"
  have "\<exists>v. grid_inputs env X y Xy fit_intercept normalize_X = (Inr (v, n_samples), tr)
          \<and> v \<noteq> [] \<and> alpha_max = Max (set (map abs v)) / (real n_samples * l1_ratio)"
  proof (cases Xy)
    case None
    from dat [OF None] have
      X1: "atleast2d_or_csc env X = Inr X1"
      and cen: "(X2, y2) = (if \<not> is_sparse X1
                     then center_data env X1 y fit_intercept normalize_X else (X1, y))"
      and len: "length y2 = nrows (mat_of X2)" and nc: "0 < ncols (mat_of X2)"
      and n: "n_samples = nrows (mat_of X2)"
      and am: "alpha_max = spec_alpha_max (mat_of X2) y2 l1_ratio"
      by simp_all
    have gi: "grid_inputs env X y Xy fit_intercept normalize_X
           = (Inr (rmatvec (mat_of X2) y2, n_samples), tr)"
      unfolding None n tr_def using X1 cen len by (simp add: grid_inputs_data)
    have ne: "rmatvec (mat_of X2) y2 \<noteq> []"
      using nc by (simp add: rmatvec_def)
    have "alpha_max = Max (set (map abs (rmatvec (mat_of X2) y2))) / (real n_samples * l1_ratio)"
      unfolding am spec_alpha_max_def n rmatvec_abs_set [OF len] ..
    then show ?thesis using gi ne by blast
  next
    case (Some v)
    from pre [OF Some] have
      ne: "v \<noteq> []" and n: "n_samples = length y"
      and am: "alpha_max = Max (set (map abs v)) / (real (length y) * l1_ratio)"
      by simp_all
    have "grid_inputs env X y Xy fit_intercept normalize_X = (Inr (v, n_samples), tr)"
      unfolding Some n tr_def by (simp add: grid_inputs_def ret_def)
    then show ?thesis using ne am n by blast
  qed
  then obtain v where
    inp: "grid_inputs env X y Xy fit_intercept normalize_X = (Inr (v, n_samples), tr)"
    and ne: "v \<noteq> []"
    and am: "alpha_max = Max (set (map abs v)) / (real n_samples * l1_ratio)"
    by blast
  have "grid_of v n_samples l1_ratio eps n_alphas = Inr (Finite g)"
    unfolding g_def using ne l1 ns e0 am pos by (rule grid_of_closed)
  then have r: "alpha_grid env X y Xy l1_ratio fit_intercept eps n_alphas normalize_X copy_X
              = (Inr (Finite g), tr)"
    using inp by (simp add: alpha_grid_def bind_run_def lift_def)
  have len: "length g = n_alphas"
    by (simp add: g_def log_spaced_grid_def)
  have srt: "eps \<le> 1 \<longrightarrow> sorted_wrt (\<lambda>a b. a \<ge> b) g"
    using log_spaced_grid_descending [OF pos e0] by (simp add: g_def)
  have ends: "2 \<le> n_alphas \<longrightarrow> hd g = alpha_max \<and> last g = alpha_max * eps"
    using log_spaced_grid_ends [of n_alphas eps alpha_max] e0 by (simp add: g_def)
  show ?thesis
    using r len srt ends unfolding tr_def by (intro exI [of _ g]) (simp add: g_def)
qed

text \<open>
  A run on the data \<open>X = [[1, 4], [3, -10]]\<close>, \<open>y = [1, 1]\<close> without centring:
  \<open>X\<^sup>T y = [4, -6]\<close>, so \<open>alpha_max = 6 / 2 = 3\<close>.
\<close>

lemma demo_alpha_max:
  "spec_alpha_max (arr2 [[1, 4], [3, - 10]]) [1, 1] 1 = 3"
  by (simp add: spec_alpha_max_def arr2_def nrows_def ncols_def at2_def at1_def
      lessThan_Suc numeral_2_eq_2)

theorem alpha_grid_log_spaced_witness:
  "alpha_grid demo_cd_env (Dense (arr2 [[1, 4], [3, - 10]])) [1, 1] None 1 False (1 / 100) 2
        False True = (Inr (Finite [3, 3 / 100]), [Call ''atleast2d_or_csc''])
   \<and> spec_alpha_max (arr2 [[1, 4], [3, - 10]]) [1, 1] 1 = 3
   \<and> length [3, 3 / 100 :: real] = 2
   \<and> hd [3, 3 / 100 :: real] = 3 \<and> last [3, 3 / 100 :: real] = 3 * (1 / 100)
   \<and> sorted_wrt (\<lambda>a b. a \<ge> b) [3, 3 / 100 :: real]"
proof -
  have am: "spec_alpha_max (arr2 [[1, 4], [3, - 10]]) [1, 1] 1 = 3"
    by (rule demo_alpha_max)
  have lg: "log_spaced_grid 3 (1 / 100) 2 = [3, 3 / 100]"
    by (simp add: log_spaced_grid_def upt_rec numeral_2_eq_2)
  have dat: "(None :: real list option) = None \<Longrightarrow>
        atleast2d_or_csc demo_cd_env (Dense (arr2 [[1, 4], [3, - 10]]))
          = Inr (Dense (arr2 [[1, 4], [3, - 10]]))
      \<and> (Dense (arr2 [[1, 4], [3, - 10]]), [1, 1])
          = (if \<not> is_sparse (Dense (arr2 [[1, 4], [3, - 10]]))
             then center_data demo_cd_env (Dense (arr2 [[1, 4], [3, - 10]])) [1, 1] False False
             else (Dense (arr2 [[1, 4], [3, - 10]]), [1, 1]))
      \<and> length [1, 1 :: real] = nrows (mat_of (Dense (arr2 [[1, 4], [3, - 10]])))
      \<and> 0 < ncols (mat_of (Dense (arr2 [[1, 4], [3, - 10]])))
      \<and> (2::nat) = nrows (mat_of (Dense (arr2 [[1, 4], [3, - 10]])))
      \<and> (3::real) = spec_alpha_max (mat_of (Dense (arr2 [[1, 4], [3, - 10]]))) [1, 1] 1"
    using am by (simp add: demo_cd_env_def arr2_def nrows_def ncols_def)
  from alpha_grid_log_spaced [where ?Xy = None and ?l1_ratio = 1 and ?eps = "1 / 100"
      and ?n_alphas = 2 and ?copy_X = True and ?alpha_max = 3 and ?n_samples = 2, OF dat]
  obtain g where
    r: "alpha_grid demo_cd_env (Dense (arr2 [[1, 4], [3, - 10]])) [1, 1] None 1 False (1 / 100) 2
        False True = (Inr (Finite g), [Call ''atleast2d_or_csc''])"
    and g: "g = log_spaced_grid 3 (1 / 100) 2"
    and s: "sorted_wrt (\<lambda>a b. a \<ge> b) g"
    by auto
  show ?thesis
    using am r g s lg by simp
qed


section \<open>Properties of the coordinate-descent paths\<close>

lemmas cd_defs = enet_path_def enet_path_kw_def enet_step_def enet_path_defaults_def
  no_params_def demo_cd_env_def py_last_def default_alphas_def np_divide_def

text \<open>
  \<open>fit_intercept=None\<close> and \<open>normalize=None\<close>, the defaults of \<open>lasso_path\<close>,
  are treated as \<open>True\<close> and \<open>False\<close>, the defaults of \<open>enet_path\<close>.
\<close>

lemma enet_path_kw_default_flags:
  "enet_path_kw env X y l1_ratio eps n_alphas alphas pc Xy None None copy_X coef_init
       verbose return_models params
   = enet_path_kw env X y l1_ratio eps n_alphas alphas pc Xy (Some True) (Some False) copy_X
       coef_init verbose return_models params"
  by (simp add: enet_path_kw_def)

text \<open>
  Claim C9. \<open>lasso_path\<close> is \<open>enet_path\<close> at \<open>l1_ratio = 1\<close> with the same
  remaining arguments, also when both are called with their own defaults; a
  \<open>Lasso\<close> is the \<open>ElasticNet\<close> constructed with \<open>l1_ratio = 1\<close>, and since it
  inherits \<open>fit\<close>, fitting either gives the same run and the same fitted
  estimator.
\<close>

theorem lasso_is_enet_l1_ratio_one:
  "lasso_path env X y args = enet_path env X y 1 args
   \<and> lasso_path env X y lasso_path_defaults = enet_path env X y 1 enet_path_defaults
   \<and> lasso_init alpha fit_intercept normalize_X pc copy_X max_iter tol warm_start positive
       = elastic_net_init alpha 1 fit_intercept normalize_X pc max_iter copy_X tol
           warm_start positive
   \<and> en_l1_ratio
         (lasso_init alpha fit_intercept normalize_X pc copy_X max_iter tol warm_start positive)
       = 1
   \<and> elastic_net_fit env fenv
         (lasso_init alpha fit_intercept normalize_X pc copy_X max_iter tol warm_start positive)
         X' y'
       = elastic_net_fit env fenv
           (elastic_net_init alpha 1 fit_intercept normalize_X pc max_iter copy_X tol
              warm_start positive) X' y'"
  by (simp add: lasso_path_def enet_path_def lasso_path_defaults_def enet_path_defaults_def
      enet_path_kw_default_flags lasso_init_def elastic_net_init_def)

text \<open>
  A step of the path on dense data without \<open>return_models\<close> and with
  \<open>verbose \<le> 2\<close> never raises: it stores the coefficients and the dual gap of the
  solve at position \<open>i\<close>, and warns exactly when the gap is above the threshold.
  \<open>MultiTaskElasticNet.fit\<close> likewise stores the result of its single solve and
  warns when it has not converged.
\<close>

lemma enet_step_plain:
  assumes d: "\<not> is_sparse (c_X c)" and m: "\<not> c_return_models c" and v: "c_verbose c \<le> 2"
    and cd: "enet_coordinate_descent env (s_coef st)
               (alpha * c_l1_ratio c * real (c_n_samples c))
               (alpha * (1 - c_l1_ratio c) * real (c_n_samples c))
               (c_X c) (c_y c) (c_max_iter c) (c_tol c) (c_positive c) = (coef, gap, eps_cd)"
  shows "\<exists>tr. enet_step env c i alpha st
            = (Inr (st\<lparr> s_coef := coef, s_coefs := (s_coefs st)[i := coef],
                          s_dual_gaps := (s_dual_gaps st)[i := gap] \<rparr>), tr)
          \<and> (gap > eps_cd \<longrightarrow> Warn not_converged_warning \<in> set tr)
          \<and> (\<not> gap > eps_cd \<longrightarrow> Warn not_converged_warning \<notin> set tr)"
  using assms
  by (auto simp: enet_step_def Let_def run_defs not_converged_warning_def)

lemma multi_task_fit_stores:
  assumes a: "array2d env X0 = Inr X1"
    and X: "shape (mat_of X1) = [n, p]" and y: "shape y0 = [n', t]"
    and c: "center_data_nd env X1 y0 (mt_fit_intercept self) (mt_normalize self)
              = (X, y, X_mean, y_mean, X_std)"
    and cd: "enet_coordinate_descent_multi_task env
               (case mt_coef self of None \<Rightarrow> zeros2 t p
                | Some c \<Rightarrow> if \<not> mt_warm_start self then zeros2 t p else c)
               (mt_alpha self * mt_l1_ratio self * real n)
               (mt_alpha self * (1 - mt_l1_ratio self) * real n)
               X y (mt_max_iter self) (mt_tol self) = (coef, gap, eps_cd)"
  shows "multi_task_fit env self X0 y0
       = (Inr (mt_set_intercept env
                 (self\<lparr> mt_coef := Some coef, mt_dual_gap := Some gap, mt_eps := Some eps_cd \<rparr>)
                 X_mean y_mean X_std),
          Call ''array2d'' # Call ''cd_fast.enet_coordinate_descent_multi_task''
            # (if gap > eps_cd then [Warn mt_not_converged_warning] else []))"
  using assms
  by (simp add: multi_task_fit_def Let_def run_defs unpack2_def ndim_def)


text \<open>
  With \<open>return_models\<close>, the model of every alpha but the last is given
  \<open>dual_gaps[-1]\<close>, the entry of the last alpha, which the loop has not yet
  written: not the gap of its own solve.
\<close>

lemma enet_step_model_gap:
  assumes d: "\<not> is_sparse (c_X c)" and m: "c_return_models c" and v: "c_verbose c = 0"
    and f: "\<not> c_fit_intercept c"
    and i: "Suc i < length (s_dual_gaps st)"
  shows "\<exists>st' tr model. enet_step env c i alpha st = (Inr st', tr)
            \<and> s_model st' = Some model
            \<and> m_dual_gap model = last (s_dual_gaps st)"
proof -
  obtain coef gap eps_cd where cd: "enet_coordinate_descent env (s_coef st)
               (alpha * c_l1_ratio c * real (c_n_samples c))
               (alpha * (1 - c_l1_ratio c) * real (c_n_samples c))
               (c_X c) (c_y c) (c_max_iter c) (c_tol c) (c_positive c) = (coef, gap, eps_cd)"
    by (metis prod_cases3)
  have l: "last ((s_dual_gaps st)[i := gap]) = last (s_dual_gaps st)"
  proof -
    have n: "s_dual_gaps st \<noteq> []" and k: "i \<noteq> length (s_dual_gaps st) - 1"
      using i by auto
    show ?thesis
      using n k by (simp add: last_conv_nth)
  qed
  have ne: "(s_dual_gaps st)[i := gap] \<noteq> []"
    using i by auto
  show ?thesis
    using d m v f cd l ne
    by (auto simp: enet_step_def Let_def run_defs py_last_def)
qed

text \<open>
  Claim C3, evaluated on the code. The kernel of \<open>demo_cd_env\<close> ends every solve
  above its threshold. On the path over the alphas \<open>[2, 1]\<close> with
  \<open>return_models=True\<close> both solves emit the non-convergence warning, but the
  model of alpha \<open>2\<close> stores the dual gap \<open>0\<close> read from the unwritten last entry
  of \<open>dual_gaps\<close>, while the gap of its solve is \<open>2\<close>. With \<open>verbose=3\<close> and
  without \<open>return_models\<close>, \<open>print(model)\<close> reads the unbound \<open>model\<close> after the
  first solve and the path ends with UnboundLocalError.
\<close>

theorem enet_path_models_store_stale_gap:
  "enet_path demo_cd_env (Dense (arr2 [[1]])) [1] 1
     (enet_path_defaults\<lparr>a_alphas := Some [1, 2], a_fit_intercept := Some False,
                          a_return_models := True\<rparr>)
   = (Inr (Models
        [\<lparr>m_alpha = 2, m_l1_ratio = 1, m_fit_intercept = False, m_precompute = PAuto,
          m_coef = [0], m_dual_gap = 0, m_intercept = 0\<rparr>,
         \<lparr>m_alpha = 1, m_l1_ratio = 1, m_fit_intercept = False, m_precompute = PAuto,
          m_coef = [0], m_dual_gap = 1, m_intercept = 0\<rparr>]),
      [Warn depr_models_warning, Call ''atleast2d_or_csc'', Call ''_pre_fit'',
       Call ''cd_fast.enet_coordinate_descent'', Warn not_converged_warning,
       Call ''cd_fast.enet_coordinate_descent'', Warn not_converged_warning])
   \<and> enet_path demo_cd_env (Dense (arr2 [[1]])) [1] 1
     (enet_path_defaults\<lparr>a_alphas := Some [1, 2], a_fit_intercept := Some False\<rparr>)
   = (Inr (Path [2, 1] [[0], [0]] [2, 1]),
      [Call ''atleast2d_or_csc'', Call ''_pre_fit'',
       Call ''cd_fast.enet_coordinate_descent'', Warn not_converged_warning,
       Call ''cd_fast.enet_coordinate_descent'', Warn not_converged_warning])
   \<and> enet_path demo_cd_env (Dense (arr2 [[1]])) [1] 1
     (enet_path_defaults\<lparr>a_alphas := Some [1, 2], a_fit_intercept := Some False,
                          a_verbose := 3\<rparr>)
   = (Inl UnboundLocalError,
      [Call ''atleast2d_or_csc'', Call ''_pre_fit'',
       Call ''cd_fast.enet_coordinate_descent'', Warn not_converged_warning])"
  by (simp add: cd_defs run_defs array_defs Let_def)

section \<open>Properties of \_RidgeGCV.fit\<close>






lemma NaNCol_nan_mean: "NaNCol \<in> set outs \<Longrightarrow> list_ex nan_mean outs"
  by (auto simp: list_ex_iff intro: bexI [of _ NaNCol])


























section \<open>Properties of the SGD classifier\<close>
























end
